theory Spec2Isabelle
  imports Main "HOL-Library.AList" "HOL-Library.Sublist"
begin

section \<open>Python values and failures\<close>

text \<open>
  The Zenodo interface of showyourwork (\<^verbatim>\<open>src/showyourwork/zenodo.py\<close>) works on
  the JSON documents the service returns. A document is kept as Python holds it after
  \<^verbatim>\<open>r.json()\<close>: \<open>None\<close>, a bool, an int, a str, a list or a dict with string keys.
  A dict is an association list read with \<open>map_of\<close>. Floats do not occur in the fields
  the code reads and are left out.
\<close>

datatype json =
    JNull
  | JBool bool
  | JInt int
  | JStr string
  | JArr "json list"
  | JObj "(string \<times> json) list"

text \<open>Every exception the code raises or lets through is a value.\<close>

datatype error =
    KeyError string
  | IndexError
  | TypeError
  | AttributeError
  | JSONDecodeError
  | OSError
  | FileNotFoundError
  | ReadError
  | Exception string
  | MissingZenodoAccessToken string
  | InvalidZenodoNotesField
  | FileNotFoundOnZenodo string
  | ZenodoError json json
  | ZenodoRecordNotFound string
  | ZenodoDownloadError
  | ZenodoUploadError

text \<open>\<^verbatim>\<open>d[key]\<close> with a string key.\<close>

fun py_getitem :: "json \<Rightarrow> string \<Rightarrow> error + json" where
  "py_getitem (JObj kvs) k = (case map_of kvs k of Some v \<Rightarrow> Inr v | None \<Rightarrow> Inl (KeyError k))"
| "py_getitem _ k = Inl TypeError"

text \<open>\<^verbatim>\<open>d.get(key, default)\<close>: only a dict has the method.\<close>

fun py_get :: "json \<Rightarrow> string \<Rightarrow> json \<Rightarrow> error + json" where
  "py_get (JObj kvs) k d = (case map_of kvs k of Some v \<Rightarrow> Inr v | None \<Rightarrow> Inr d)"
| "py_get _ k d = Inl AttributeError"

text \<open>\<^verbatim>\<open>len(x)\<close>.\<close>

fun py_len :: "json \<Rightarrow> error + nat" where
  "py_len (JArr xs) = Inr (length xs)"
| "py_len (JObj kvs) = Inr (length (remdups (map fst kvs)))"
| "py_len (JStr s) = Inr (length s)"
| "py_len _ = Inl TypeError"

text \<open>\<^verbatim>\<open>x[0]\<close>: a dict from JSON has no integer key.\<close>

fun py_first :: "json \<Rightarrow> error + json" where
  "py_first (JArr (x # xs)) = Inr x"
| "py_first (JArr []) = Inl IndexError"
| "py_first (JStr (c # cs)) = Inr (JStr [c])"
| "py_first (JStr []) = Inl IndexError"
| "py_first (JObj kvs) = Inl (KeyError ''0'')"
| "py_first _ = Inl TypeError"

text \<open>Truth value of an object, as \<^verbatim>\<open>if x:\<close> and \<^verbatim>\<open>not x\<close> take it.\<close>

fun truthy :: "json \<Rightarrow> bool" where
  "truthy JNull = False"
| "truthy (JBool b) = b"
| "truthy (JInt n) = (n \<noteq> 0)"
| "truthy (JStr s) = (s \<noteq> [])"
| "truthy (JArr xs) = (xs \<noteq> [])"
| "truthy (JObj kvs) = (kvs \<noteq> [])"

text \<open>The elements \<^verbatim>\<open>for x in v\<close> runs through: a dict yields its keys.\<close>

fun py_iter :: "json \<Rightarrow> error + json list" where
  "py_iter (JArr xs) = Inr xs"
| "py_iter (JObj kvs) = Inr (map JStr (remdups (map fst kvs)))"
| "py_iter (JStr s) = Inr (map (\<lambda>c. JStr [c]) s)"
| "py_iter _ = Inl TypeError"

text \<open>\<^verbatim>\<open>needle in haystack\<close> for two strings.\<close>

fun str_contains :: "string \<Rightarrow> string \<Rightarrow> bool" where
  "str_contains [] needle = (needle = [])"
| "str_contains (c # cs) needle = (prefix needle (c # cs) \<or> str_contains cs needle)"

text \<open>\<^verbatim>\<open>"text" in x\<close> for a string on the left.\<close>

fun py_contains :: "json \<Rightarrow> string \<Rightarrow> error + bool" where
  "py_contains (JStr s) needle = Inr (str_contains s needle)"
| "py_contains (JArr xs) needle = Inr (JStr needle \<in> set xs)"
| "py_contains (JObj kvs) needle = Inr (needle \<in> fst ` set kvs)"
| "py_contains _ needle = Inl TypeError"

text \<open>\<^verbatim>\<open>d[key] = value\<close> on the dict a ledger is.\<close>

fun py_setitem :: "json \<Rightarrow> string \<Rightarrow> json \<Rightarrow> error + json" where
  "py_setitem (JObj kvs) k v = Inr (JObj (AList.update k v kvs))"
| "py_setitem _ k v = Inl TypeError"

section \<open>Effects\<close>

text \<open>
  An f-string is kept as its text with \<open>{}\<close> for each placeholder and the values
  interpolated, in order, so that no rendering of a value to text has to be chosen.
\<close>

datatype fstr = F string "json list"

datatype http_method = GET | POST | PUT | DELETE

datatype payload = NoBody | JsonBody json | DataBody string

text \<open>A call of \<^verbatim>\<open>requests\<close>: method, URL, query parameters, body and headers.\<close>

datatype request = Request http_method fstr "(string \<times> json) list" payload "(string \<times> string) list"

text \<open>What the code reads of a response: the status, the body (\<open>None\<close> when
  \<^verbatim>\<open>r.json()\<close> raises) and the raw text.\<close>

record response =
  status_code :: int
  body :: "json option"
  response_text :: string

datatype level = DEBUG | INFO | WARNING

text \<open>One member of a tar archive; the code reads its name only.\<close>

datatype tarinfo = TarInfo (member_name: string)

text \<open>What a download left at a local path.\<close>

datatype fetched_file = Missing | NotArchive | Archive "tarinfo list"

text \<open>How \<^verbatim>\<open>subprocess.run\<close> ends: it returns, whatever the exit status of the program,
  or raises \<^verbatim>\<open>FileNotFoundError\<close> because the program is not installed, or raises
  another \<^verbatim>\<open>OSError\<close>.\<close>

datatype launch = Returned | ProgramMissing | LaunchFailed

text \<open>Everything an operation does to the outside, in the order it does it.\<close>

datatype event =
    Http request
  | Subprocess "fstr list"
  | Log level fstr
  | Rename string string
  | Extract string
  | Unlink string
  | TarOpen string
  | TarAdd string string

text \<open>An operation yields its result, or the exception that ended it, and its events.\<close>

type_synonym 'a run = "(error + 'a) \<times> event list"

definition py_return :: "'a \<Rightarrow> 'a run" where
  "py_return v = (Inr v, [])"

definition py_raise :: "error \<Rightarrow> 'a run" where
  "py_raise e = (Inl e, [])"

definition emit :: "event \<Rightarrow> unit run" where
  "emit ev = (Inr (), [ev])"

definition lift :: "error + 'a \<Rightarrow> 'a run" where
  "lift x = (x, [])"

definition py_bind :: "'a run \<Rightarrow> ('a \<Rightarrow> 'b run) \<Rightarrow> 'b run" where
  "py_bind m f =
     (case m of
        (Inl e, t) \<Rightarrow> (Inl e, t)
      | (Inr v, t) \<Rightarrow> (case f v of (r, t') \<Rightarrow> (r, t @ t')))"

text \<open>\<^verbatim>\<open>try: m except <handles>: h\<close>.\<close>

definition py_try :: "'a run \<Rightarrow> (error \<Rightarrow> bool) \<Rightarrow> (error \<Rightarrow> 'a run) \<Rightarrow> 'a run" where
  "py_try m handles h =
     (case m of
        (Inl e, t) \<Rightarrow> (if handles e then (case h e of (r, t') \<Rightarrow> (r, t @ t')) else (Inl e, t))
      | (Inr v, t) \<Rightarrow> (Inr v, t))"

section \<open>The environment\<close>

text \<open>
  The collaborators of the interface: the HTTP transport, \<^verbatim>\<open>json.loads\<close> and
  \<^verbatim>\<open>json.dumps\<close>, \<^verbatim>\<open>subprocess.run\<close> (how it ends; the exit status of the program
  is never read), the workflow configuration, the working directory, which local paths
  exist and what a download leaves on disk. \<^verbatim>\<open>parse_request\<close> of
  \<^verbatim>\<open>showyourwork.subproc\<close> is not among the sources and is a parameter too: it turns a
  response into its data or raises.
\<close>

record world =
  http :: "request \<Rightarrow> response"
  parse_request :: "response \<Rightarrow> error + json"
  json_loads :: "string \<Rightarrow> json option"
  json_dumps :: "nat option \<Rightarrow> json \<Rightarrow> string"
  subprocess_run :: "fstr list \<Rightarrow> launch"
  on_disk :: "string \<Rightarrow> bool"
  github_actions :: bool
  run_type :: string
  getcwd :: string
  fetched :: "string \<Rightarrow> fetched_file"

text \<open>A request is sent and answered: the operations are described from the answers
  they receive. A transport that raises instead of answering (no connection) ends the
  operation at that request with the exception of the transport; that case is not
  part of the model.\<close>

definition requests :: "world \<Rightarrow> request \<Rightarrow> response run" where
  "requests w rq = (Inr (http w rq), [Http rq])"

text \<open>\<^verbatim>\<open>r.json()\<close>.\<close>

definition r_json :: "response \<Rightarrow> error + json" where
  "r_json r = (case body r of Some j \<Rightarrow> Inr j | None \<Rightarrow> Inl JSONDecodeError)"

section \<open>Paths\<close>

text \<open>\<^verbatim>\<open>os.path.join(a, b)\<close> (posixpath).\<close>

definition starts_with_sep :: "string \<Rightarrow> bool" where
  "starts_with_sep p = (case p of c # cs \<Rightarrow> c = CHR ''/'' | [] \<Rightarrow> False)"

definition os_path_join :: "string \<Rightarrow> string \<Rightarrow> string" where
  "os_path_join a b =
     (if starts_with_sep b then b
      else if a = [] \<or> last a = CHR ''/'' then a @ b
      else a @ ''/'' @ b)"

text \<open>\<^verbatim>\<open>path.split('/')\<close> and \<^verbatim>\<open>'/'.join(comps)\<close>.\<close>

fun split_sep :: "string \<Rightarrow> string list" where
  "split_sep [] = [[]]"
| "split_sep (c # cs) =
     (if c = CHR ''/'' then [] # split_sep cs
      else (case split_sep cs of w # ws \<Rightarrow> (c # w) # ws | [] \<Rightarrow> [[c]]))"

fun join_sep :: "string list \<Rightarrow> string" where
  "join_sep [] = []"
| "join_sep [w] = w"
| "join_sep (w # ws) = w @ ''/'' @ join_sep ws"

text \<open>\<^verbatim>\<open>os.path.normpath\<close>: one step of its loop over the components, then the whole.\<close>

definition normpath_step :: "bool \<Rightarrow> string list \<Rightarrow> string \<Rightarrow> string list" where
  "normpath_step initial new_comps component =
     (if component = [] \<or> component = ''.'' then new_comps
      else if component \<noteq> ''..'' \<or> (\<not> initial \<and> new_comps = [])
              \<or> (new_comps \<noteq> [] \<and> last new_comps = ''..'')
      then new_comps @ [component]
      else if new_comps \<noteq> [] then butlast new_comps
      else new_comps)"

definition initial_slashes :: "string \<Rightarrow> nat" where
  "initial_slashes p =
     (if \<not> starts_with_sep p then 0
      else if take 2 p = ''//'' \<and> take 3 p \<noteq> ''///'' then 2
      else 1)"

definition normpath :: "string \<Rightarrow> string" where
  "normpath p =
     (if p = [] then ''.''
      else let n = initial_slashes p;
               comps = foldl (normpath_step (n \<noteq> 0)) [] (split_sep p);
               q = replicate n CHR ''/'' @ join_sep comps
           in if q = [] then ''.'' else q)"

text \<open>\<^verbatim>\<open>os.path.abspath\<close>, with the working directory it reads.\<close>

definition abspath :: "string \<Rightarrow> string \<Rightarrow> string" where
  "abspath cwd p = normpath (if starts_with_sep p then p else os_path_join cwd p)"

text \<open>\<^verbatim>\<open>os.path.commonprefix([a, b])\<close>: the longest common prefix, character by
  character.\<close>

fun commonprefix :: "string \<Rightarrow> string \<Rightarrow> string" where
  "commonprefix (a # as) (b # bs) = (if a = b then a # commonprefix as bs else [])"
| "commonprefix _ _ = []"

section \<open>Extraction of a downloaded tarball\<close>

text \<open>The two nested functions of \<^verbatim>\<open>download_file_from_draft\<close> and
  \<^verbatim>\<open>download_file_from_record\<close> (the same text in both).\<close>

definition is_within_directory :: "string \<Rightarrow> string \<Rightarrow> string \<Rightarrow> bool" where
  "is_within_directory cwd directory target =
     (let abs_directory = abspath cwd directory;
          abs_target = abspath cwd target;
          prefix = commonprefix abs_directory abs_target
      in prefix = abs_directory)"

text \<open>The loop of \<^verbatim>\<open>safe_extract\<close> over \<^verbatim>\<open>tar.getmembers()\<close>.\<close>

fun safe_extract_members :: "string \<Rightarrow> string \<Rightarrow> tarinfo list \<Rightarrow> error + unit" where
  "safe_extract_members cwd path [] = Inr ()"
| "safe_extract_members cwd path (member # members) =
     (let member_path = os_path_join path (member_name member)
      in if \<not> is_within_directory cwd path member_path
         then Inl (Exception ''Attempted Path Traversal in Tar File'')
         else safe_extract_members cwd path members)"

text \<open>
  \<^verbatim>\<open>TarFile.extractall(path=".", members=None, *, numeric_owner=False)\<close> of the
  standard library: \<^verbatim>\<open>numeric_owner\<close> is keyword-only, so a call with more than two
  positional arguments raises \<^verbatim>\<open>TypeError\<close> before anything is written. Otherwise
  every member is written at \<^verbatim>\<open>os.path.join(path, member.name)\<close>. The call is given
  by the number of its positional arguments.
\<close>

definition TarFile_extractall :: "tarinfo list \<Rightarrow> string \<Rightarrow> nat \<Rightarrow> unit run" where
  "TarFile_extractall tar path positional =
     (if 2 < positional then py_raise TypeError
      else (Inr (), map (\<lambda>m. Extract (os_path_join path (member_name m))) tar))"

text \<open>\<^verbatim>\<open>safe_extract(tar, path)\<close> ends in
  \<^verbatim>\<open>tar.extractall(path, members, numeric_owner)\<close>: three positional arguments.\<close>

definition safe_extract :: "world \<Rightarrow> tarinfo list \<Rightarrow> string \<Rightarrow> unit run" where
  "safe_extract w tar path =
     py_bind (lift (safe_extract_members (getcwd w) path tar)) (\<lambda>_.
       TarFile_extractall tar path 3)"

text \<open>
  The block under \<^verbatim>\<open>if tarball:\<close>: rename the download to \<^verbatim>\<open><file>.tar.gz\<close>, open
  it, \<^verbatim>\<open>safe_extract(tb, file)\<close>, unlink the archive.
\<close>

definition extract_tarball :: "world \<Rightarrow> string \<Rightarrow> unit run" where
  "extract_tarball w file =
     (let archive = file @ ''.tar.gz'' in
      case fetched w file of
        Missing \<Rightarrow> py_raise FileNotFoundError
      | NotArchive \<Rightarrow> py_bind (emit (Rename file archive)) (\<lambda>_. py_raise ReadError)
      | Archive tb \<Rightarrow>
          py_bind (emit (Rename file archive)) (\<lambda>_.
          py_bind (safe_extract w tb file) (\<lambda>_.
          emit (Unlink archive))))"

text \<open>
  The requirement as the specification words it: the resolved destination of a member
  stays lexically within the extraction root, component by component.
\<close>

definition path_components :: "string \<Rightarrow> string list" where
  "path_components p = filter (\<lambda>c. c \<noteq> []) (split_sep p)"

definition lexically_within :: "string \<Rightarrow> string \<Rightarrow> string \<Rightarrow> bool" where
  "lexically_within cwd root target =
     prefix (path_components (abspath cwd root)) (path_components (abspath cwd target))"

section \<open>The deposit interface\<close>

text \<open>The fields of a \<^verbatim>\<open>Zenodo\<close> object the operations read, and a local file
  (a \<^verbatim>\<open>pathlib.Path\<close>: its text and its \<^verbatim>\<open>name\<close>).\<close>

record zenodo =
  doi :: string
  doi_prefix :: string
  deposit_id :: string
  url :: string
  token_name :: string
  access_token :: "string option"
  service :: string

record local_file =
  file_path :: string
  file_name :: string

definition token :: "zenodo \<Rightarrow> json" where
  "token z = (case access_token z of None \<Rightarrow> JNull | Some t \<Rightarrow> JStr t)"

text \<open>The decorator \<^verbatim>\<open>require_access_token\<close>.\<close>

definition require_access_token :: "zenodo \<Rightarrow> 'a run \<Rightarrow> 'a run" where
  "require_access_token z method =
     (if truthy (token z) then method
      else py_raise (MissingZenodoAccessToken (token_name z)))"

text \<open>The search for all versions of the concept, sent by \<^verbatim>\<open>delete\<close>, \<^verbatim>\<open>publish\<close>,
  \<^verbatim>\<open>download_file\<close> and \<^verbatim>\<open>upload_file\<close>.\<close>

definition depositions_query :: "zenodo \<Rightarrow> request" where
  "depositions_query z =
     Request GET (F ''https://{}/api/deposit/depositions'' [JStr (url z)])
       [(''q'', JStr (''conceptrecid:'' @ deposit_id z)),
        (''all_versions'', JInt 1),
        (''access_token'', token z)] NoBody []"

text \<open>\<^verbatim>\<open>requests.get(url, params={"access_token": self.access_token})\<close>, the request
  for a draft or for its file listing.\<close>

definition authorized_get :: "zenodo \<Rightarrow> json \<Rightarrow> request" where
  "authorized_get z link =
     Request GET (F ''{}'' [link]) [(''access_token'', token z)] NoBody []"

definition progress_bar :: "world \<Rightarrow> fstr list" where
  "progress_bar w = (if \<not> github_actions w then [F ''--progress-bar'' []] else [])"

text \<open>\<^verbatim>\<open>subprocess.run(args)\<close>: it returns, whatever the exit status, or raises.\<close>

definition subprocess :: "world \<Rightarrow> fstr list \<Rightarrow> unit run" where
  "subprocess w args =
     (case subprocess_run w args of
        Returned \<Rightarrow> (Inr (), [Subprocess args])
      | ProgramMissing \<Rightarrow> (Inl FileNotFoundError, [Subprocess args])
      | LaunchFailed \<Rightarrow> (Inl OSError, [Subprocess args]))"

fun is_FileNotFoundOnZenodo :: "error \<Rightarrow> bool" where
  "is_FileNotFoundOnZenodo (FileNotFoundOnZenodo n) = True"
| "is_FileNotFoundOnZenodo _ = False"

subsection \<open>The session flags\<close>

text \<open>
  \<^verbatim>\<open>check_if_user_is_owner\<close>. The flags directory is the set of the marker files in
  it; the operation returns it as it leaves it.
\<close>

definition ownership_query :: "zenodo \<Rightarrow> request" where
  "ownership_query z =
     Request GET (F ''https://{}/api/deposit/depositions'' [JStr (url z)])
       [(''q'', JStr (''recid:'' @ deposit_id z @ '' conceptrecid:'' @ deposit_id z)),
        (''all_versions'', JInt 1),
        (''access_token'', token z)] NoBody []"

definition check_if_user_is_owner :: "world \<Rightarrow> zenodo \<Rightarrow> string set \<Rightarrow> bool run \<times> string set" where
  "check_if_user_is_owner w z flags =
     (let cache_file_true = deposit_id z @ ''_AUTH_VALID'';
          cache_file_false = deposit_id z @ ''_AUTH_INVALID'';
          no_dice = (\<lambda>t. ((Inr False,
                       t @ [Log WARNING (F ''User is not authenticated to edit {}.'' [JStr (doi z)])]),
                      insert cache_file_false flags))
      in if cache_file_true \<in> flags then (py_return True, flags)
         else if cache_file_false \<in> flags then (py_return False, flags)
         else if truthy (token z) then
           (let rq = ownership_query z;
                r = http w rq;
                t = [Log DEBUG (F ''Testing if user is authenticated for {}...'' [JStr (doi z)]),
                     Http rq]
            in if status_code r \<le> 204 then
                 (case r_json r of
                    Inl e \<Rightarrow> ((Inl e, t), flags)
                  | Inr (JArr (x # xs)) \<Rightarrow>
                      ((Inr True,
                        t @ [Log (if run_type w = ''build'' then INFO else DEBUG)
                               (F ''User authentication for {} is valid.'' [JStr (doi z)])]),
                       insert cache_file_true flags)
                  | Inr _ \<Rightarrow>
                      no_dice (t @ [Log DEBUG (F ''Error establishing whether user is authenticated.'' []),
                                    Log DEBUG (F ''HTTP response:'' []),
                                    Log DEBUG (F ''{}'' [JStr (response_text r)])]))
               else no_dice t)
         else no_dice [])"

subsection \<open>The ledger\<close>

text \<open>The five lines that open the three ledger-reading operations:
  \<^verbatim>\<open>notes = metadata.get("notes", "{}")\<close>, then \<^verbatim>\<open>json.loads(notes)\<close>, whose
  \<^verbatim>\<open>JSONDecodeError\<close> becomes \<^verbatim>\<open>InvalidZenodoNotesField\<close>. \<^verbatim>\<open>json.loads\<close> of a value that
  is not text raises \<^verbatim>\<open>TypeError\<close>.\<close>

definition load_rule_hashes :: "world \<Rightarrow> json \<Rightarrow> error + json" where
  "load_rule_hashes w metadata =
     (case py_get metadata ''notes'' (JStr ''{}'') of
        Inl e \<Rightarrow> Inl e
      | Inr (JStr notes) \<Rightarrow>
          (case json_loads w notes of
             None \<Rightarrow> Inl InvalidZenodoNotesField
           | Some rule_hashes \<Rightarrow> Inr rule_hashes)
      | Inr _ \<Rightarrow> Inl TypeError)"

subsection \<open>Upload to a draft\<close>

text \<open>The loop of \<^verbatim>\<open>upload_file_to_draft\<close> that deletes the file the rule left.\<close>

fun delete_existing :: "world \<Rightarrow> zenodo \<Rightarrow> json \<Rightarrow> string \<Rightarrow> json list \<Rightarrow> unit run" where
  "delete_existing w z files_url rule_name [] = py_return ()"
| "delete_existing w z files_url rule_name (entry # rest) =
     (case py_getitem entry ''filename'' of
        Inl e \<Rightarrow> py_raise e
      | Inr filename \<Rightarrow>
          if filename = JStr rule_name then
            py_bind (lift (py_getitem entry ''id'')) (\<lambda>file_id.
            py_bind (requests w (Request DELETE (F ''{}/{}'' [files_url, file_id])
                                   [(''access_token'', token z)] NoBody [])) (\<lambda>r.
            py_bind (lift (parse_request w r)) (\<lambda>_.
            py_return ())))
          else delete_existing w z files_url rule_name rest)"

definition upload_file_to_draft ::
  "world \<Rightarrow> zenodo \<Rightarrow> json \<Rightarrow> local_file \<Rightarrow> string \<Rightarrow> bool \<Rightarrow> unit run" where
  "upload_file_to_draft w z draft file rule_name tarball =
     require_access_token z (
       py_bind (lift (py_getitem draft ''metadata'')) (\<lambda>metadata.
       py_bind (lift (load_rule_hashes w metadata)) (\<lambda>rule_hashes.
       py_bind (lift (py_get rule_hashes rule_name JNull)) (\<lambda>rule_hash_on_zenodo.
       if rule_hash_on_zenodo = JStr (file_name file) then py_return ()
       else
         py_bind
           (if truthy rule_hash_on_zenodo then
              py_bind (lift (py_getitem draft ''links'')) (\<lambda>links.
              py_bind (lift (py_getitem links ''files'')) (\<lambda>files_url.
              py_bind (requests w (authorized_get z files_url)) (\<lambda>r.
              py_bind (lift (parse_request w r)) (\<lambda>data.
              py_bind (lift (py_iter data)) (\<lambda>entries.
              delete_existing w z files_url rule_name entries)))))
            else py_return ()) (\<lambda>_.
         py_bind
           (if tarball then
              py_bind (emit (TarOpen (file_path file @ ''.tar.gz''))) (\<lambda>_.
              if on_disk w (file_path file)
              then emit (TarAdd (file_path file @ ''.tar.gz'') (file_path file))
              else py_raise FileNotFoundError)
            else py_return ()) (\<lambda>_.
         let file_to_upload = (if tarball then file_path file @ ''.tar.gz'' else file_path file) in
         py_bind (lift (py_getitem draft ''links'')) (\<lambda>links.
         py_bind (lift (py_getitem links ''bucket'')) (\<lambda>bucket_url.
         py_bind
           (py_try
              (subprocess w
                 ([F ''curl'' [], F ''-f'' []] @ progress_bar w @
                  [F ''-o'' [], F ''/dev/null'' [], F ''--upload-file'' [],
                   F ''{}'' [JStr file_to_upload], F ''--request'' [], F ''PUT'' [],
                   F ''{}/{}?access_token={}'' [bucket_url, JStr rule_name, token z]]))
              (\<lambda>_. True) (\<lambda>_. py_raise ZenodoUploadError)) (\<lambda>_.
         py_bind (if tarball then emit (Unlink file_to_upload) else py_return ()) (\<lambda>_.
         py_bind (lift (py_setitem rule_hashes rule_name (JStr (file_name file)))) (\<lambda>rule_hashes.
         py_bind (lift (py_setitem metadata ''notes''
                          (JStr (json_dumps w (Some 4) rule_hashes)))) (\<lambda>metadata.
         py_bind (lift (py_getitem draft ''links'')) (\<lambda>links.
         py_bind (lift (py_getitem links ''latest_draft'')) (\<lambda>latest_draft.
         py_bind (requests w (Request PUT (F ''{}'' [latest_draft])
                                [(''access_token'', token z)]
                                (DataBody (json_dumps w None (JObj [(''metadata'', metadata)])))
                                [(''Content-Type'', ''application/json'')])) (\<lambda>r.
         py_bind (lift (parse_request w r)) (\<lambda>_.
         py_return ()))))))))))))))))"


subsection \<open>Download from a draft\<close>

text \<open>What \<^verbatim>\<open>download_file_from_draft\<close> does on a match: the download by curl and,
  for a directory, the extraction.\<close>

definition download_draft_entry ::
  "world \<Rightarrow> zenodo \<Rightarrow> local_file \<Rightarrow> json \<Rightarrow> bool \<Rightarrow> bool \<Rightarrow> unit run" where
  "download_draft_entry w z file entry tarball dry_run =
     py_bind (emit (Log DEBUG (F ''File name and hash both match.'' []))) (\<lambda>_.
     if \<not> dry_run then
       py_bind (emit (Log DEBUG (F ''Downloading...'' []))) (\<lambda>_.
       py_bind (lift (py_getitem entry ''links'')) (\<lambda>links.
       py_bind (lift (py_getitem links ''download'')) (\<lambda>url.
       py_bind
         (py_try
            (subprocess w
               ([F ''curl'' [], F ''-f'' [], F ''{}?access_token={}'' [url, token z]] @
                progress_bar w @ [F ''--output'' [], F ''{}'' [JStr (file_path file)]]))
            (\<lambda>_. True) (\<lambda>_. py_raise ZenodoDownloadError)) (\<lambda>_.
       if tarball then extract_tarball w (file_path file) else py_return ()))))
     else py_return ())"

text \<open>The loop over the file listing of the draft. Leaving it, by \<^verbatim>\<open>break\<close> or at its
  end, raises the cache miss.\<close>

fun search_draft ::
  "world \<Rightarrow> zenodo \<Rightarrow> local_file \<Rightarrow> string \<Rightarrow> bool \<Rightarrow> bool \<Rightarrow> json \<Rightarrow> json list \<Rightarrow> unit run" where
  "search_draft w z file rule_name tarball dry_run rule_hashes [] =
     py_raise (FileNotFoundOnZenodo rule_name)"
| "search_draft w z file rule_name tarball dry_run rule_hashes (entry # rest) =
     (case py_getitem entry ''filename'' of
        Inl e \<Rightarrow> py_raise e
      | Inr filename \<Rightarrow>
          (case py_get rule_hashes rule_name JNull of
             Inl e \<Rightarrow> py_raise e
           | Inr rule_hash \<Rightarrow>
               py_bind (emit (Log DEBUG (F ''Inspecting candidate file `{}` with hash `{}`...''
                                           [filename, rule_hash]))) (\<lambda>_.
               if filename = JStr rule_name \<and> rule_hash = JStr (file_name file) then
                 download_draft_entry w z file entry tarball dry_run
               else if filename = JStr rule_name then
                 py_bind (emit (Log DEBUG (F ''File {} found, but it has the wrong hash. Skipping...''
                                             [JStr rule_name]))) (\<lambda>_.
                 py_raise (FileNotFoundOnZenodo rule_name))
               else
                 py_bind (emit (Log DEBUG (F ''Cache miss for file {}. Skipping...'' [filename]))) (\<lambda>_.
                 search_draft w z file rule_name tarball dry_run rule_hashes rest))))"

definition download_file_from_draft ::
  "world \<Rightarrow> zenodo \<Rightarrow> json \<Rightarrow> local_file \<Rightarrow> string \<Rightarrow> bool \<Rightarrow> bool \<Rightarrow> unit run" where
  "download_file_from_draft w z draft file rule_name tarball dry_run =
     require_access_token z (
       py_bind (lift (py_getitem draft ''metadata'')) (\<lambda>metadata.
       py_bind (lift (load_rule_hashes w metadata)) (\<lambda>rule_hashes.
       py_bind (lift (py_getitem draft ''links'')) (\<lambda>links.
       py_bind (lift (py_getitem links ''files'')) (\<lambda>files_url.
       py_bind (requests w (authorized_get z files_url)) (\<lambda>r.
       py_bind (lift (parse_request w r)) (\<lambda>data.
       py_bind (emit (Log DEBUG (F ''Searching for file `{}` with hash `{}`...''
                                   [JStr rule_name, JStr (file_name file)]))) (\<lambda>_.
       py_bind (lift (py_iter data)) (\<lambda>entries.
       search_draft w z file rule_name tarball dry_run rule_hashes entries)))))))))"

subsection \<open>Download from a published record\<close>

text \<open>\<^verbatim>\<open>subprocess.run\<close> takes text arguments only, and here nothing catches what it
  raises.\<close>

definition download_record_entry ::
  "world \<Rightarrow> local_file \<Rightarrow> json \<Rightarrow> bool \<Rightarrow> bool \<Rightarrow> unit run" where
  "download_record_entry w file entry tarball dry_run =
     py_bind (emit (Log DEBUG (F ''File name and hash both match.'' []))) (\<lambda>_.
     if \<not> dry_run then
       py_bind (emit (Log DEBUG (F ''Downloading...'' []))) (\<lambda>_.
       py_bind (lift (py_getitem entry ''links'')) (\<lambda>links.
       py_bind (lift (py_getitem links ''self'')) (\<lambda>url.
       py_bind
         (case url of
            JStr u \<Rightarrow>
              subprocess w
                ([F ''curl'' [], F ''{}'' [url]] @ progress_bar w @
                 [F ''--output'' [], F ''{}'' [JStr (file_path file)]])
          | _ \<Rightarrow> py_raise TypeError) (\<lambda>_.
       if tarball then extract_tarball w (file_path file) else py_return ()))))
     else py_return ())"

fun search_record ::
  "world \<Rightarrow> local_file \<Rightarrow> string \<Rightarrow> bool \<Rightarrow> bool \<Rightarrow> json \<Rightarrow> json list \<Rightarrow> unit run" where
  "search_record w file rule_name tarball dry_run rule_hashes [] =
     py_raise (FileNotFoundOnZenodo rule_name)"
| "search_record w file rule_name tarball dry_run rule_hashes (entry # rest) =
     (case py_getitem entry ''key'' of
        Inl e \<Rightarrow> py_raise e
      | Inr key \<Rightarrow>
          if key = JStr rule_name then
            (case py_get rule_hashes rule_name JNull of
               Inl e \<Rightarrow> py_raise e
             | Inr rule_hash \<Rightarrow>
                 if rule_hash = JStr (file_name file) then
                   download_record_entry w file entry tarball dry_run
                 else
                   py_bind (emit (Log DEBUG (F ''File {} found, but it has the wrong hash. Skipping...''
                                               [JStr rule_name]))) (\<lambda>_.
                   py_raise (FileNotFoundOnZenodo rule_name)))
          else search_record w file rule_name tarball dry_run rule_hashes rest)"

definition download_file_from_record ::
  "world \<Rightarrow> json \<Rightarrow> local_file \<Rightarrow> string \<Rightarrow> bool \<Rightarrow> bool \<Rightarrow> unit run" where
  "download_file_from_record w record file rule_name tarball dry_run =
     py_bind (lift (py_getitem record ''metadata'')) (\<lambda>metadata.
     py_bind (lift (load_rule_hashes w metadata)) (\<lambda>rule_hashes.
     py_bind (lift (py_getitem record ''files'')) (\<lambda>files.
     py_bind (lift (py_iter files)) (\<lambda>entries.
     search_record w file rule_name tarball dry_run rule_hashes entries))))"

subsection \<open>Deleting the draft\<close>

text \<open>The \<^verbatim>\<open>for ... else\<close> of \<^verbatim>\<open>delete\<close> and \<^verbatim>\<open>publish\<close>, then the bare
  \<^verbatim>\<open>except\<close> around it.\<close>

fun first_unsubmitted :: "json list \<Rightarrow> error + json" where
  "first_unsubmitted [] = Inl (Exception [])"
| "first_unsubmitted (data # rest) =
     (case py_getitem data ''submitted'' of
        Inl e \<Rightarrow> Inl e
      | Inr submitted \<Rightarrow> if \<not> truthy submitted then Inr data else first_unsubmitted rest)"

definition unsubmitted_version :: "zenodo \<Rightarrow> response \<Rightarrow> error + json" where
  "unsubmitted_version z r =
     (case (case r_json r of
              Inl e \<Rightarrow> Inl e
            | Inr versions \<Rightarrow>
                (case py_iter versions of
                   Inl e \<Rightarrow> Inl e
                 | Inr datas \<Rightarrow> first_unsubmitted datas)) of
        Inl e \<Rightarrow> Inl (ZenodoRecordNotFound (deposit_id z))
      | Inr data \<Rightarrow> Inr data)"

definition delete :: "world \<Rightarrow> zenodo \<Rightarrow> unit run" where
  "delete w z =
     require_access_token z (
       py_bind (emit (Log INFO (F ''Deleting {} deposit with concept DOI {}...''
                                  [JStr (service z), JStr (doi z)]))) (\<lambda>_.
       py_bind (requests w (depositions_query z)) (\<lambda>r.
       py_bind (lift (unsubmitted_version z r)) (\<lambda>data.
       py_bind (lift (py_getitem data ''id'')) (\<lambda>version_id.
       py_bind (requests w (Request DELETE
                              (F ''https://{}/api/deposit/depositions/{}'' [JStr (url z), version_id])
                              [(''access_token'', token z)] NoBody [])) (\<lambda>r.
       py_bind (lift (parse_request w r)) (\<lambda>_.
       emit (Log INFO (F ''Successfully deleted deposit {}.'' [JStr (doi z)])))))))))"


subsection \<open>The cache lookup\<close>

text \<open>
  \<^verbatim>\<open>download_file\<close>, first half: the draft. The result tells whether the function has
  returned (a file was found in the draft) or goes on to the published records.
  \<^verbatim>\<open>exceptions.restore_trace()\<close> only resets the traceback settings.
\<close>

definition log_message :: "response \<Rightarrow> unit run" where
  "log_message r =
     (case r_json r of
        Inl e \<Rightarrow> py_return ()
      | Inr data \<Rightarrow>
          py_bind (lift (py_getitem data ''message'')) (\<lambda>message.
          emit (Log DEBUG (F ''{}'' [message]))))"

definition download_file_draft ::
  "world \<Rightarrow> zenodo \<Rightarrow> local_file \<Rightarrow> string \<Rightarrow> bool \<Rightarrow> bool \<Rightarrow> bool run" where
  "download_file_draft w z file rule_name tarball dry_run =
     py_bind (emit (Log DEBUG (F ''Attempting to access {} deposit with DOI {}...''
                                 [JStr (service z), JStr (doi z)]))) (\<lambda>_.
     py_bind (requests w (depositions_query z)) (\<lambda>r.
     if status_code r \<le> 204 then
       (let data = (case r_json r of Inl e \<Rightarrow> JArr [] | Inr d \<Rightarrow> d) in
        py_bind (lift (py_len data)) (\<lambda>n.
        if n \<noteq> 0 then
          py_bind (lift (py_first data)) (\<lambda>data.
          py_bind (lift (py_get data ''links'' (JObj []))) (\<lambda>links.
          py_bind (lift (py_get links ''latest_draft'' JNull)) (\<lambda>draft_url.
          if truthy draft_url then
            py_bind (requests w (authorized_get z draft_url)) (\<lambda>r.
            if status_code r \<le> 204 then
              py_try
                (py_bind (lift (r_json r)) (\<lambda>draft.
                 py_bind (download_file_from_draft w z draft file rule_name tarball dry_run) (\<lambda>_.
                 py_return True)))
                is_FileNotFoundOnZenodo
                (\<lambda>_. py_bind (emit (Log DEBUG (F ''File {} not found in deposit with DOI {}.''
                                                [JStr rule_name, JStr (doi z)]))) (\<lambda>_.
                      py_return False))
            else
              py_bind (emit (Log DEBUG (F ''Something went wrong accessing {}.'' [draft_url]))) (\<lambda>_.
              py_bind (log_message r) (\<lambda>_.
              py_return False)))
          else py_return False)))
        else
          py_bind (emit (Log DEBUG (F ''Failed to access {} deposit with DOI {}.''
                                      [JStr (service z), JStr (doi z)]))) (\<lambda>_.
          py_return False)))
     else
       py_bind (emit (Log DEBUG (F ''Failed to access {} deposit with DOI {}.''
                                   [JStr (service z), JStr (doi z)]))) (\<lambda>_.
       py_bind (log_message r) (\<lambda>_.
       py_return False))))"

text \<open>\<^verbatim>\<open>raise exceptions.ZenodoError(status=data.get("status", "unknown"),
  message=data.get("message", f"An error occurred while accessing {self.service}."))\<close>.\<close>

definition raise_ZenodoError :: "zenodo \<Rightarrow> json \<Rightarrow> 'a run" where
  "raise_ZenodoError z data =
     py_bind (lift (py_get data ''status'' (JStr ''unknown''))) (\<lambda>status.
     py_bind (lift (py_get data ''message''
                      (JStr (''An error occurred while accessing '' @ service z @ ''.'')))) (\<lambda>message.
     py_raise (ZenodoError status message)))"

text \<open>\<^verbatim>\<open>records[::-1]\<close>.\<close>

fun py_reversed :: "json \<Rightarrow> error + json" where
  "py_reversed (JArr xs) = Inr (JArr (rev xs))"
| "py_reversed (JStr s) = Inr (JStr (rev s))"
| "py_reversed _ = Inl TypeError"

text \<open>The loop over the published records, in the order it is given them.\<close>

fun search_records ::
  "world \<Rightarrow> zenodo \<Rightarrow> local_file \<Rightarrow> string \<Rightarrow> bool \<Rightarrow> bool \<Rightarrow> json list \<Rightarrow> bool run" where
  "search_records w z file rule_name tarball dry_run [] = py_return False"
| "search_records w z file rule_name tarball dry_run (record # rest) =
     (case download_file_from_record w record file rule_name tarball dry_run of
        (Inr u, t) \<Rightarrow> (Inr True, t)
      | (Inl e, t) \<Rightarrow>
          if is_FileNotFoundOnZenodo e then
            (case search_records w z file rule_name tarball dry_run rest of
               (res, t') \<Rightarrow>
                 (res, t @ Log DEBUG (F ''File {} not found in record with DOI {}.''
                                        [JStr rule_name, JStr (doi z)]) # t'))
          else (Inl e, t))"

text \<open>The two requests about published records: whether the concept has any, and
  the search for all its versions.\<close>

definition record_query :: "zenodo \<Rightarrow> request" where
  "record_query z =
     Request GET (F ''https://{}/api/records/{}'' [JStr (url z), JStr (deposit_id z)]) [] NoBody []"

definition records_search :: "zenodo \<Rightarrow> request" where
  "records_search z =
     Request GET (F ''https://{}/api/records'' [JStr (url z)])
       [(''q'', JStr (''conceptdoi:'' @ [CHR 0x22] @ doi_prefix z @ deposit_id z @ [CHR 0x22])),
        (''access_token'', token z),
        (''all_versions'', JInt 1)] NoBody []"

text \<open>\<^verbatim>\<open>download_file\<close>, second half: the published records.\<close>

definition download_file_records ::
  "world \<Rightarrow> zenodo \<Rightarrow> local_file \<Rightarrow> string \<Rightarrow> bool \<Rightarrow> bool \<Rightarrow> bool run" where
  "download_file_records w z file rule_name tarball dry_run =
     (py_bind (emit (Log DEBUG (F ''Attempting to access {} record with DOI {}...''
                                  [JStr (service z), JStr (doi z)]))) (\<lambda>_.
      py_bind (requests w (record_query z)) (\<lambda>r.
      if status_code r > 204 then
        (let data = (case r_json r of Inl e \<Rightarrow> JObj [] | Inr d \<Rightarrow> d) in
         py_bind (lift (py_get data ''message'' (JStr []))) (\<lambda>message.
         py_bind (lift (py_contains message ''PID is not registered'')) (\<lambda>unregistered.
         if unregistered then py_return False
         else raise_ZenodoError z data)))
      else
        py_bind (requests w (records_search z)) (\<lambda>r.
        if status_code r \<le> 204 then
          py_bind
            (py_try
               (py_bind (lift (r_json r)) (\<lambda>found.
                py_bind (lift (py_get found ''hits'' (JObj []))) (\<lambda>hits.
                lift (py_get hits ''hits'' (JArr [])))))
               (\<lambda>_. True)
               (\<lambda>_. py_bind (emit (Log DEBUG (F ''File {} not found in record with DOI {}.''
                                               [JStr rule_name, JStr (doi z)]))) (\<lambda>_.
                     py_return (JArr [])))) (\<lambda>records.
          py_bind (lift (py_reversed records)) (\<lambda>reversed.
          py_bind (lift (py_iter reversed)) (\<lambda>records.
          search_records w z file rule_name tarball dry_run records)))
        else
          (let data = (case r_json r of Inl e \<Rightarrow> JObj [] | Inr d \<Rightarrow> d) in
           raise_ZenodoError z data)))))"

definition download_file ::
  "world \<Rightarrow> zenodo \<Rightarrow> local_file \<Rightarrow> string \<Rightarrow> bool \<Rightarrow> bool \<Rightarrow> unit run" where
  "download_file w z file rule_name tarball dry_run =
     py_bind (download_file_draft w z file rule_name tarball dry_run) (\<lambda>returned.
     if returned then py_return ()
     else
       py_bind (download_file_records w z file rule_name tarball dry_run) (\<lambda>returned.
       if returned then py_return ()
       else py_raise (FileNotFoundOnZenodo (file_name file))))"

subsection \<open>The cache upload\<close>

definition upload_file :: "world \<Rightarrow> zenodo \<Rightarrow> local_file \<Rightarrow> string \<Rightarrow> bool \<Rightarrow> unit run" where
  "upload_file w z file rule_name tarball =
     require_access_token z (
       py_bind (requests w (depositions_query z)) (\<lambda>r.
       if status_code r > 204 then
         py_bind (emit (Log WARNING
                    (F ''{} authentication failed. Unable to upload cache for rule {}.''
                       [JStr (service z), JStr rule_name]))) (\<lambda>_.
         log_message r)
       else
         (let data = (case r_json r of Inl e \<Rightarrow> JArr [] | Inr d \<Rightarrow> d) in
          py_bind (lift (py_len data)) (\<lambda>n.
          if n \<noteq> 0 then
            py_bind (lift (py_first data)) (\<lambda>data.
            py_bind (lift (py_get data ''links'' (JObj []))) (\<lambda>links.
            py_bind (lift (py_get links ''latest_draft'' JNull)) (\<lambda>draft_url.
            py_bind
              (if \<not> truthy draft_url then
                 py_bind (lift (py_getitem data ''submitted'')) (\<lambda>submitted.
                 if \<not> truthy submitted then
                   py_bind (lift (py_getitem data ''links'')) (\<lambda>links.
                   lift (py_getitem links ''self''))
                 else py_return draft_url)
               else py_return draft_url) (\<lambda>draft_url.
            py_bind
              (if truthy draft_url then
                 py_bind (requests w (authorized_get z draft_url)) (\<lambda>r.
                 lift (parse_request w r))
               else
                 py_bind (lift (py_getitem data ''id'')) (\<lambda>version_id.
                 py_bind (requests w (Request POST
                            (F ''https://{}/api/deposit/depositions/{}/actions/newversion''
                               [JStr (url z), version_id])
                            [(''access_token'', token z)] NoBody [])) (\<lambda>r.
                 py_bind (lift (parse_request w r)) (\<lambda>data.
                 py_bind (lift (py_getitem data ''links'')) (\<lambda>links.
                 py_bind (lift (py_getitem links ''latest_draft'')) (\<lambda>draft_url.
                 py_bind (requests w (authorized_get z draft_url)) (\<lambda>r.
                 lift (parse_request w r)))))))) (\<lambda>draft.
            upload_file_to_draft w z draft file rule_name tarball)))))
          else
            py_bind (emit (Log WARNING
                       (F ''{} authentication failed. Unable to upload cache for rule {}.''
                          [JStr (service z), JStr rule_name]))) (\<lambda>_.
            py_return ())))))"


section \<open>A sample session\<close>

text \<open>
  A deposit on the sandbox service, a cached file and the answers of a service, to run
  the operations on. The sample \<^verbatim>\<open>json.loads\<close> knows the ledgers below and rejects
  everything else.
\<close>

definition quoted :: "string \<Rightarrow> string" where
  "quoted s = [CHR 0x22] @ s @ [CHR 0x22]"

definition ledger_text :: "string \<Rightarrow> string \<Rightarrow> string" where
  "ledger_text rule_name hash = ''{'' @ quoted rule_name @ '': '' @ quoted hash @ ''}''"

definition sample_loads :: "string \<Rightarrow> json option" where
  "sample_loads s =
     (if s = ''{}'' then Some (JObj [])
      else if s = ledger_text ''make_data'' ''7f3a'' then Some (JObj [(''make_data'', JStr ''7f3a'')])
      else if s = ledger_text ''make_data'' ''0000'' then Some (JObj [(''make_data'', JStr ''0000'')])
      else None)"

text \<open>Modelled from the spec: \<^verbatim>\<open>parse_request\<close> is not among the sources. A response
  with status at most 204 is a success and yields its body; anything else is an API
  failure whose message is taken from the \<^verbatim>\<open>message\<close> field of the body.\<close>

definition sample_parse_request :: "response \<Rightarrow> error + json" where
  "sample_parse_request r =
     (if status_code r \<le> 204 then Inr (case body r of Some j \<Rightarrow> j | None \<Rightarrow> JObj [])
      else Inl (ZenodoError (JInt (status_code r))
                  (case body r of
                     Some (JObj kvs) \<Rightarrow> (case map_of kvs ''message'' of Some m \<Rightarrow> m | None \<Rightarrow> JStr [])
                   | _ \<Rightarrow> JStr [])))"

definition not_found :: response where
  "not_found = \<lparr>status_code = 404, body = None, response_text = ''Not Found''\<rparr>"

definition ok :: "json \<Rightarrow> response" where
  "ok j = \<lparr>status_code = 200, body = Some j, response_text = []\<rparr>"

text \<open>A service that answers the listed requests and no other.\<close>

definition sample_world :: "(request \<times> response) list \<Rightarrow> world" where
  "sample_world answers =
     \<lparr>http = (\<lambda>rq. case map_of answers rq of Some r \<Rightarrow> r | None \<Rightarrow> not_found),
      parse_request = sample_parse_request,
      json_loads = sample_loads,
      json_dumps = (\<lambda>indent j. []),
      subprocess_run = (\<lambda>args. Returned),
      on_disk = (\<lambda>p. True),
      github_actions = True,
      run_type = ''build'',
      getcwd = ''/home/user'',
      fetched = (\<lambda>p. Missing)\<rparr>"

definition sample_zenodo :: zenodo where
  "sample_zenodo =
     \<lparr>doi = ''10.5072/zenodo.1'', doi_prefix = ''10.5072/zenodo.'', deposit_id = ''1'',
      url = ''sandbox.zenodo.org'', token_name = ''SANDBOX_TOKEN'',
      access_token = Some ''secret'', service = ''Zenodo Sandbox''\<rparr>"

definition sample_file :: local_file where
  "sample_file = \<lparr>file_path = ''/cache/7f3a'', file_name = ''7f3a''\<rparr>"

text \<open>A draft or record with the given notes and file entries.\<close>

definition deposit_json :: "json option \<Rightarrow> json list \<Rightarrow> (string \<times> json) list" where
  "deposit_json notes entries =
     [(''metadata'', JObj ((''title'', JStr ''Data'') #
                           (case notes of None \<Rightarrow> [] | Some n \<Rightarrow> [(''notes'', n)]))),
      (''links'', JObj [(''files'', JStr ''https://sandbox.zenodo.org/api/files/1''),
                        (''bucket'', JStr ''https://sandbox.zenodo.org/api/bucket/1''),
                        (''latest_draft'', JStr ''https://sandbox.zenodo.org/api/draft/1'')]),
      (''files'', JArr entries)]"

text \<open>The listing request for the files of the sample draft.\<close>

definition files_query :: request where
  "files_query = authorized_get sample_zenodo (JStr ''https://sandbox.zenodo.org/api/files/1'')"

text \<open>Two answers of the service to the question for a published record.\<close>

definition unregistered_answer :: response where
  "unregistered_answer =
     \<lparr>status_code = 404,
      body = Some (JObj [(''message'', JStr ''PID is not registered''), (''status'', JInt 404)]),
      response_text = []\<rparr>"

definition server_error_answer :: response where
  "server_error_answer =
     \<lparr>status_code = 500,
      body = Some (JObj [(''message'', JStr ''Internal Server Error''), (''status'', JInt 500)]),
      response_text = []\<rparr>"

text \<open>Two more answers to that question: an object whose message is a number, and a
  body that is a list.\<close>

definition numeric_message_answer :: response where
  "numeric_message_answer =
     \<lparr>status_code = 404, body = Some (JObj [(''message'', JInt 404)]), response_text = []\<rparr>"

definition list_answer :: response where
  "list_answer = \<lparr>status_code = 500, body = Some (JArr []), response_text = []\<rparr>"

text \<open>A version of the sample deposit as the depositions search lists it.\<close>

definition version_json :: "int \<Rightarrow> bool \<Rightarrow> json" where
  "version_json n submitted =
     JObj [(''id'', JInt n), (''submitted'', JBool submitted),
           (''links'', JObj [(''self'', JStr ''https://sandbox.zenodo.org/api/deposit/depositions/x'')])]"

text \<open>A published version of the sample deposit with the given id: one file under the
  rule name, stored at the given link, and a ledger with the given hash.\<close>

definition numbered_version :: "int \<Rightarrow> string \<Rightarrow> string \<Rightarrow> json" where
  "numbered_version n hash link =
     JObj ((''id'', JInt n) #
           deposit_json (Some (JStr (ledger_text ''make_data'' hash)))
             [JObj [(''key'', JStr ''make_data''), (''links'', JObj [(''self'', JStr link)])]])"

definition hits_answer :: "json list \<Rightarrow> response" where
  "hits_answer listing = ok (JObj [(''hits'', JObj [(''hits'', JArr listing)])])"

text \<open>The answer of the sample service to the search for the versions of the concept:
  one version with an open draft.\<close>

definition draft_listed :: response where
  "draft_listed =
     ok (JArr [JObj [(''id'', JInt 11), (''submitted'', JBool False),
                     (''links'', JObj [(''latest_draft'',
                                        JStr ''https://sandbox.zenodo.org/api/draft/1'')])]])"

definition draft_query :: request where
  "draft_query = authorized_get sample_zenodo (JStr ''https://sandbox.zenodo.org/api/draft/1'')"

text \<open>The entry of the sample draft filed under the rule name.\<close>

definition draft_file :: json where
  "draft_file =
     JObj [(''filename'', JStr ''make_data''),
           (''links'', JObj [(''download'', JStr ''https://sandbox.zenodo.org/api/files/1/make_data'')])]"

text \<open>A service with an open draft and published versions: the draft has a ledger with
  the given hash for the rule and three files, the second one under the rule name; the
  concept has a published record, and the search for its versions returns the given
  listing.\<close>

definition sample_service :: "string \<Rightarrow> json list \<Rightarrow> world" where
  "sample_service draft_hash listing =
     sample_world
       [(depositions_query sample_zenodo, draft_listed),
        (draft_query, ok (JObj (deposit_json (Some (JStr (ledger_text ''make_data'' draft_hash))) []))),
        (files_query,
         ok (JArr [JObj [(''filename'', JStr ''other'')], draft_file,
                   JObj [(''filename'', JStr ''later'')]])),
        (record_query sample_zenodo, ok (JObj [])),
        (records_search sample_zenodo, hits_answer listing)]"

section \<open>Auxiliary notions\<close>

text \<open>The request by which \<^verbatim>\<open>delete\<close> removes a version.\<close>

definition delete_request :: "zenodo \<Rightarrow> json \<Rightarrow> request" where
  "delete_request z version_id =
     Request DELETE (F ''https://{}/api/deposit/depositions/{}'' [JStr (url z), version_id])
       [(''access_token'', token z)] NoBody []"


text \<open>An outcome other than the ledger failure.\<close>

definition no_ledger_failure :: "'a run \<Rightarrow> bool" where
  "no_ledger_failure m = (fst m \<noteq> Inl InvalidZenodoNotesField)"

text \<open>The two lines the loop over a draft logs on an entry filed under another name.\<close>

definition passed_over :: "json \<Rightarrow> json \<Rightarrow> event list" where
  "passed_over rule_hash entry =
     (case py_getitem entry ''filename'' of
        Inl e \<Rightarrow> []
      | Inr filename \<Rightarrow>
          [Log DEBUG (F ''Inspecting candidate file `{}` with hash `{}`...'' [filename, rule_hash]),
           Log DEBUG (F ''Cache miss for file {}. Skipping...'' [filename])])"

text \<open>What the loop over the records logs on the records it passes without a match.\<close>

definition missed :: "world \<Rightarrow> zenodo \<Rightarrow> local_file \<Rightarrow> string \<Rightarrow> bool \<Rightarrow> bool \<Rightarrow> json list \<Rightarrow> event list" where
  "missed w z file rule_name tarball dry_run records =
     concat (map (\<lambda>record.
                    snd (download_file_from_record w record file rule_name tarball dry_run) @
                    [Log DEBUG (F ''File {} not found in record with DOI {}.''
                                  [JStr rule_name, JStr (doi z)])]) records)"

text \<open>An outcome other than the cache miss.\<close>

definition no_miss :: "'a run \<Rightarrow> bool" where
  "no_miss m = (\<forall>n. fst m \<noteq> Inl (FileNotFoundOnZenodo n))"

text \<open>The id of a version of the deposit, the field \<^verbatim>\<open>id\<close> that \<^verbatim>\<open>delete\<close> reads
  from a listed version. The service numbers the versions as it creates them: of two
  versions of a concept the one with the greater id is the newer. The lookup reads
  neither the id nor the date of a version; the id serves to say which of the listed
  versions is the newest.\<close>

definition record_id :: "json \<Rightarrow> int" where
  "record_id record = (case py_getitem record ''id'' of Inr (JInt n) \<Rightarrow> n | _ \<Rightarrow> 0)"

section \<open>Running the operations\<close>

lemma py_bind_return: "py_bind (py_return v) f = f v"
  by (simp add: py_bind_def py_return_def split: prod.splits)

lemma py_bind_raise: "py_bind (py_raise e) f = py_raise e"
  by (simp add: py_bind_def py_raise_def)

lemma py_bind_lift_Inr: "py_bind (lift (Inr v)) f = f v"
  by (simp add: py_bind_def lift_def split: prod.splits)

lemma py_bind_lift_Inl: "py_bind (lift (Inl e)) f = py_raise e"
  by (simp add: py_bind_def lift_def py_raise_def)

lemma py_bind_emit: "py_bind (emit ev) f = (fst (f ()), ev # snd (f ()))"
  by (simp add: py_bind_def emit_def split: prod.splits)

lemma py_bind_requests:
  "py_bind (requests w rq) f = (fst (f (http w rq)), Http rq # snd (f (http w rq)))"
  by (simp add: py_bind_def requests_def split: prod.splits)

lemmas run_simps =
  py_bind_return py_bind_raise py_bind_lift_Inr py_bind_lift_Inl py_bind_emit py_bind_requests

lemma py_bind_Inr: "py_bind (Inr v, t) f = (fst (f v), t @ snd (f v))"
  by (simp add: py_bind_def split: prod.splits)

lemma py_bind_Inl: "py_bind (Inl e, t) f = (Inl e, t)"
  by (simp add: py_bind_def)

lemma py_try_Inr: "py_try (Inr v, t) handles h = (Inr v, t)"
  by (simp add: py_try_def)

lemma py_try_Inl:
  "py_try (Inl e, t) handles h = (if handles e then (fst (h e), t @ snd (h e)) else (Inl e, t))"
  by (simp add: py_try_def split: prod.splits)

lemmas run_defs =
  py_return_def py_raise_def emit_def lift_def requests_def
  py_bind_Inr py_bind_Inl py_try_Inr py_try_Inl

lemmas path_defs =
  is_within_directory_def abspath_def normpath_def normpath_step_def
  initial_slashes_def starts_with_sep_def os_path_join_def

section \<open>Extraction of a tarball\<close>

text \<open>The guard is a test on characters: the absolute root is a prefix of the absolute
  target as a string, whether or not the prefix ends at a path separator.\<close>

lemma commonprefix_eq_iff: "commonprefix a b = a \<longleftrightarrow> prefix a b"
  by (induction a b rule: commonprefix.induct) auto

lemma is_within_directory_iff:
  "is_within_directory cwd directory target \<longleftrightarrow> prefix (abspath cwd directory) (abspath cwd target)"
  by (simp add: is_within_directory_def Let_def commonprefix_eq_iff)

text \<open>A member that climbs out through the parent of the root, as
  \<^verbatim>\<open>../../etc/passwd\<close> does, is rejected.\<close>

lemma extract_tarball_rejects_parent_escape:
  "extract_tarball (w\<lparr>fetched := \<lambda>p. Archive [TarInfo ''../../etc/passwd'']\<rparr>) ''/tmp/data''
     = (Inl (Exception ''Attempted Path Traversal in Tar File''),
        [Rename ''/tmp/data'' ''/tmp/data.tar.gz''])"
  by (simp add: path_defs extract_tarball_def safe_extract_def run_defs)

text \<open>Whatever the archive holds, the block ends in an exception, and all it has done by
  then is the renaming: nothing is extracted and the archive is not removed.\<close>

lemma extract_tarball_raises: "\<exists>e. fst (extract_tarball w file) = Inl e"
  by (cases "fetched w file")
     (auto simp: extract_tarball_def safe_extract_def TarFile_extractall_def run_simps py_raise_def
           lift_def py_bind_def emit_def Let_def split: sum.splits prod.splits)

lemma extract_tarball_events:
  "set (snd (extract_tarball w file)) \<subseteq> {Rename file (file @ ''.tar.gz'')}"
  by (cases "fetched w file")
     (auto simp: extract_tarball_def safe_extract_def TarFile_extractall_def run_simps py_raise_def
           lift_def py_bind_def emit_def Let_def split: sum.splits prod.splits)

text \<open>
  C2. Extraction is to abort with a path-traversal failure when a member resolves
  outside the extraction root, and to extract and remove the archive when all members
  are safe. At the root \<^verbatim>\<open>/tmp/data\<close> and the member \<^verbatim>\<open>../data2/evil\<close> the code does
  neither: the member resolves to \<^verbatim>\<open>/tmp/data2/evil\<close>, outside the root, yet the
  character-wise prefix test of \<^verbatim>\<open>is_within_directory\<close> lets it pass; a call of
  \<^verbatim>\<open>extractall\<close> with two positional arguments would write it there. The call the code
  makes has three, so the block ends in \<^verbatim>\<open>TypeError\<close> after the renaming, and it does so
  for the harmless member \<^verbatim>\<open>a.txt\<close> as well.
\<close>

theorem extract_tarball_sibling_escape:
  "safe_extract_members cwd ''/tmp/data'' [TarInfo ''../data2/evil''] = Inr ()
   \<and> abspath cwd (os_path_join ''/tmp/data'' ''../data2/evil'') = ''/tmp/data2/evil''
   \<and> \<not> lexically_within cwd ''/tmp/data'' (os_path_join ''/tmp/data'' ''../data2/evil'')
   \<and> TarFile_extractall [TarInfo ''../data2/evil''] ''/tmp/data'' 2
       = (Inr (), [Extract ''/tmp/data/../data2/evil''])
   \<and> extract_tarball (w\<lparr>fetched := \<lambda>p. Archive [TarInfo ''../data2/evil'']\<rparr>) ''/tmp/data''
       = (Inl TypeError, [Rename ''/tmp/data'' ''/tmp/data.tar.gz''])
   \<and> extract_tarball (w\<lparr>fetched := \<lambda>p. Archive [TarInfo ''a.txt'']\<rparr>) ''/tmp/data''
       = (Inl TypeError, [Rename ''/tmp/data'' ''/tmp/data.tar.gz''])"
  by (simp add: path_defs lexically_within_def path_components_def extract_tarball_def
        safe_extract_def TarFile_extractall_def run_simps py_raise_def lift_def py_bind_def emit_def)

section \<open>The ledger in the notes field\<close>

lemma load_rule_hashes_valid:
  "map_of m ''notes'' = Some (JStr notes) \<Longrightarrow> json_loads w notes = Some ledger
   \<Longrightarrow> load_rule_hashes w (JObj m) = Inr ledger"
  by (simp add: load_rule_hashes_def)

lemma load_rule_hashes_invalid:
  "map_of m ''notes'' = Some (JStr notes) \<Longrightarrow> json_loads w notes = None
   \<Longrightarrow> load_rule_hashes w (JObj m) = Inl InvalidZenodoNotesField"
  by (simp add: load_rule_hashes_def)

lemma load_rule_hashes_absent:
  "map_of m ''notes'' = None \<Longrightarrow> json_loads w ''{}'' = Some ledger
   \<Longrightarrow> load_rule_hashes w (JObj m) = Inr ledger"
  by (simp add: load_rule_hashes_def)

text \<open>No step of the three operations other than the reading of the notes ends in the
  ledger failure; the property is carried through \<^verbatim>\<open>py_bind\<close> and the loops.\<close>

lemma nlf_bind:
  "no_ledger_failure m \<Longrightarrow> (\<And>v. no_ledger_failure (f v)) \<Longrightarrow> no_ledger_failure (py_bind m f)"
proof (cases m)
  case (Pair r t)
  assume m: "no_ledger_failure m" and f: "\<And>v. no_ledger_failure (f v)"
  show ?thesis
  proof (cases r)
    case (Inl e)
    with Pair m show ?thesis by (simp add: no_ledger_failure_def py_bind_def)
  next
    case (Inr v)
    with Pair f [of v] show ?thesis
      by (cases "f v") (simp add: no_ledger_failure_def py_bind_def)
  qed
qed

lemma nlf_basic:
  "no_ledger_failure (py_return v)" "no_ledger_failure (emit ev)" "no_ledger_failure (requests w rq)"
  "e \<noteq> InvalidZenodoNotesField \<Longrightarrow> no_ledger_failure (py_raise e)"
  by (simp_all add: no_ledger_failure_def py_return_def emit_def requests_def py_raise_def)

lemma nlf_lift: "x \<noteq> Inl InvalidZenodoNotesField \<Longrightarrow> no_ledger_failure (lift x)"
  by (simp add: no_ledger_failure_def lift_def)

lemma py_getitem_not_ledger: "py_getitem j k \<noteq> Inl InvalidZenodoNotesField"
  by (cases j) (auto split: option.splits)

lemma py_get_not_ledger: "py_get j k d \<noteq> Inl InvalidZenodoNotesField"
  by (cases j) (auto split: option.splits)

lemma py_iter_not_ledger: "py_iter j \<noteq> Inl InvalidZenodoNotesField"
  by (cases j) auto

lemma py_setitem_not_ledger: "py_setitem j k v \<noteq> Inl InvalidZenodoNotesField"
  by (cases j) auto

lemmas not_ledger = py_getitem_not_ledger py_get_not_ledger py_iter_not_ledger py_setitem_not_ledger

lemma nlf_getitem: "no_ledger_failure (lift (py_getitem j k))"
  by (simp add: nlf_lift not_ledger)

lemma nlf_get: "no_ledger_failure (lift (py_get j k d))"
  by (simp add: nlf_lift not_ledger)

lemma nlf_iter: "no_ledger_failure (lift (py_iter j))"
  by (simp add: nlf_lift not_ledger)

lemma nlf_setitem: "no_ledger_failure (lift (py_setitem j k v))"
  by (simp add: nlf_lift not_ledger)

lemma nlf_subprocess: "no_ledger_failure (subprocess w args)"
  by (simp add: no_ledger_failure_def subprocess_def split: launch.splits)

lemma nlf_try:
  "no_ledger_failure m \<Longrightarrow> (\<And>e. no_ledger_failure (h e)) \<Longrightarrow> no_ledger_failure (py_try m p h)"
proof (cases m)
  case (Pair r t)
  assume m: "no_ledger_failure m" and h: "\<And>e. no_ledger_failure (h e)"
  show ?thesis
  proof (cases r)
    case (Inl e)
    with Pair m h [of e] show ?thesis
      by (cases "h e") (simp add: no_ledger_failure_def py_try_def)
  next
    case (Inr v)
    with Pair show ?thesis by (simp add: no_ledger_failure_def py_try_def)
  qed
qed

lemma nlf_safe_extract_members: "safe_extract_members cwd path tar \<noteq> Inl InvalidZenodoNotesField"
  by (induction tar) (simp_all add: Let_def)

lemma nlf_extract_tarball: "no_ledger_failure (extract_tarball w file)"
  unfolding extract_tarball_def safe_extract_def TarFile_extractall_def Let_def
  by (cases "fetched w file")
     (auto intro!: nlf_bind nlf_basic nlf_lift nlf_safe_extract_members split: if_splits)


lemmas nlf_intros =
  nlf_bind nlf_basic nlf_getitem nlf_get nlf_iter nlf_setitem nlf_subprocess nlf_try
  nlf_extract_tarball

lemma nlf_parse_request:
  "\<forall>r. parse_request w r \<noteq> Inl InvalidZenodoNotesField \<Longrightarrow> no_ledger_failure (lift (parse_request w r))"
  by (simp add: nlf_lift)

lemma py_getitem_error: "py_getitem j k = Inl e \<Longrightarrow> e \<noteq> InvalidZenodoNotesField"
  using py_getitem_not_ledger [of j k] by auto

lemma py_get_error: "py_get j k d = Inl e \<Longrightarrow> e \<noteq> InvalidZenodoNotesField"
  using py_get_not_ledger [of j k d] by auto

lemma nlf_delete_existing:
  assumes "\<forall>r. parse_request w r \<noteq> Inl InvalidZenodoNotesField"
  shows "no_ledger_failure (delete_existing w z files_url rule_name entries)"
proof (induction entries)
  case Nil
  show ?case by (simp add: nlf_basic)
next
  case (Cons entry rest)
  with assms show ?case
    by (auto intro!: nlf_intros nlf_parse_request dest: py_getitem_error split: sum.splits)
qed

lemma nlf_download_draft_entry:
  "no_ledger_failure (download_draft_entry w z file entry tarball dry_run)"
  unfolding download_draft_entry_def
  by (auto intro!: nlf_intros)

lemma nlf_download_record_entry:
  "no_ledger_failure (download_record_entry w file entry tarball dry_run)"
  unfolding download_record_entry_def
  by (auto intro!: nlf_intros split: json.splits)

lemma nlf_search_draft:
  "no_ledger_failure (search_draft w z file rule_name tarball dry_run rule_hashes entries)"
proof (induction entries)
  case Nil
  show ?case by (simp add: nlf_basic)
next
  case (Cons entry rest)
  then show ?case
    by (auto intro!: nlf_intros nlf_download_draft_entry dest: py_getitem_error py_get_error
             split: sum.splits)
qed

lemma nlf_search_record:
  "no_ledger_failure (search_record w file rule_name tarball dry_run rule_hashes entries)"
proof (induction entries)
  case Nil
  show ?case by (simp add: nlf_basic)
next
  case (Cons entry rest)
  then show ?case
    by (auto intro!: nlf_intros nlf_download_record_entry dest: py_getitem_error py_get_error
             split: sum.splits)
qed

lemma ledger_failure_bind_lift:
  assumes "fst (py_bind (lift x) f) = Inl InvalidZenodoNotesField"
      and "\<And>v. no_ledger_failure (f v)"
  shows "x = Inl InvalidZenodoNotesField"
  using assms
  by (cases x) (auto simp: py_bind_lift_Inl py_bind_lift_Inr py_raise_def no_ledger_failure_def)

lemma load_rule_hashes_failure:
  assumes "load_rule_hashes w metadata = Inl InvalidZenodoNotesField"
      and "json_loads w ''{}'' = Some (JObj [])"
  shows "\<exists>m s. metadata = JObj m \<and> map_of m ''notes'' = Some (JStr s) \<and> json_loads w s = None"
  using assms
  by (cases metadata) (auto simp: load_rule_hashes_def split: option.splits json.splits)

lemma ledger_failure_prelude:
  assumes fail: "fst (py_bind (lift (py_getitem draft ''metadata'')) (\<lambda>metadata.
                  py_bind (lift (load_rule_hashes w metadata)) (f metadata))) = Inl InvalidZenodoNotesField"
      and rest: "\<And>metadata rule_hashes. no_ledger_failure (f metadata rule_hashes)"
      and lib: "json_loads w ''{}'' = Some (JObj [])"
  shows "\<exists>d m s. draft = JObj d \<and> map_of d ''metadata'' = Some (JObj m)
           \<and> map_of m ''notes'' = Some (JStr s) \<and> json_loads w s = None"
proof (cases "py_getitem draft ''metadata''")
  case (Inl e)
  with fail py_getitem_not_ledger [of draft "''metadata''"] show ?thesis
    by (simp add: py_bind_lift_Inl py_raise_def)
next
  case (Inr metadata)
  with fail have "fst (py_bind (lift (load_rule_hashes w metadata)) (f metadata)) = Inl InvalidZenodoNotesField"
    by (simp add: py_bind_lift_Inr)
  then have "load_rule_hashes w metadata = Inl InvalidZenodoNotesField"
    using rest by (rule ledger_failure_bind_lift)
  from load_rule_hashes_failure [OF this lib] obtain m s
    where "metadata = JObj m" "map_of m ''notes'' = Some (JStr s)" "json_loads w s = None" by blast
  moreover from Inr obtain d where "draft = JObj d" "map_of d ''metadata'' = Some metadata"
    by (cases draft) (auto split: option.splits)
  ultimately show ?thesis by blast
qed

lemma require_access_token_ledger_failure:
  "fst (require_access_token z m) = Inl InvalidZenodoNotesField \<Longrightarrow> fst m = Inl InvalidZenodoNotesField"
  by (simp add: require_access_token_def py_raise_def split: if_splits)

lemma upload_ledger_failure:
  assumes fail: "fst (upload_file_to_draft w z draft file rule_name tarball) = Inl InvalidZenodoNotesField"
      and lib: "json_loads w ''{}'' = Some (JObj [])"
      and pr: "\<forall>r. parse_request w r \<noteq> Inl InvalidZenodoNotesField"
  shows "\<exists>d m s. draft = JObj d \<and> map_of d ''metadata'' = Some (JObj m)
           \<and> map_of m ''notes'' = Some (JStr s) \<and> json_loads w s = None"
  using fail unfolding upload_file_to_draft_def
  apply (drule_tac require_access_token_ledger_failure)
  apply (erule ledger_failure_prelude [OF _ _ lib])
  using pr
  apply (auto intro!: nlf_intros nlf_parse_request nlf_delete_existing simp: Let_def)
  done

lemma download_draft_ledger_failure:
  assumes fail: "fst (download_file_from_draft w z draft file rule_name tarball dry_run) = Inl InvalidZenodoNotesField"
      and lib: "json_loads w ''{}'' = Some (JObj [])"
      and pr: "\<forall>r. parse_request w r \<noteq> Inl InvalidZenodoNotesField"
  shows "\<exists>d m s. draft = JObj d \<and> map_of d ''metadata'' = Some (JObj m)
           \<and> map_of m ''notes'' = Some (JStr s) \<and> json_loads w s = None"
  using fail unfolding download_file_from_draft_def
  apply (drule_tac require_access_token_ledger_failure)
  apply (erule ledger_failure_prelude [OF _ _ lib])
  using pr
  apply (auto intro!: nlf_intros nlf_parse_request nlf_search_draft)
  done

lemma download_record_ledger_failure:
  assumes fail: "fst (download_file_from_record w record file rule_name tarball dry_run) = Inl InvalidZenodoNotesField"
      and lib: "json_loads w ''{}'' = Some (JObj [])"
  shows "\<exists>d m s. record = JObj d \<and> map_of d ''metadata'' = Some (JObj m)
           \<and> map_of m ''notes'' = Some (JStr s) \<and> json_loads w s = None"
  using fail unfolding download_file_from_record_def
  apply (erule_tac ledger_failure_prelude [OF _ _ lib])
  apply (auto intro!: nlf_intros nlf_search_record)
  done

lemma search_record_miss:
  assumes "py_get rule_hashes rule_name JNull = Inr h" and "h \<noteq> JStr (file_name file)"
      and "\<forall>e\<in>set entries. \<exists>k. py_getitem e ''key'' = Inr k"
  shows "fst (search_record w file rule_name tarball dry_run rule_hashes entries)
           = Inl (FileNotFoundOnZenodo rule_name)"
  using assms
  by (induction entries) (auto simp: py_raise_def run_simps)

lemma search_draft_miss:
  assumes "py_get rule_hashes rule_name JNull = Inr h" and "h \<noteq> JStr (file_name file)"
      and "\<forall>e\<in>set entries. \<exists>f. py_getitem e ''filename'' = Inr f"
  shows "fst (search_draft w z file rule_name tarball dry_run rule_hashes entries)
           = Inl (FileNotFoundOnZenodo rule_name)"
  using assms
  by (induction entries) (auto simp: py_raise_def run_simps)

lemma download_record_notes_absent:
  assumes lib: "json_loads w ''{}'' = Some (JObj [])"
      and "map_of d ''metadata'' = Some (JObj m)" and absent: "map_of m ''notes'' = None"
      and "map_of d ''files'' = Some (JArr entries)"
      and keys: "\<forall>e\<in>set entries. \<exists>k. py_getitem e ''key'' = Inr k"
  shows "fst (download_file_from_record w (JObj d) file rule_name tarball dry_run)
           = Inl (FileNotFoundOnZenodo rule_name)"
  using assms(2,4) load_rule_hashes_absent [OF absent lib]
        search_record_miss [where rule_hashes = "JObj []" and h = JNull, OF _ _ keys]
  by (simp add: download_file_from_record_def run_simps)

lemma download_draft_notes_absent:
  assumes lib: "json_loads w ''{}'' = Some (JObj [])"
      and "map_of d ''metadata'' = Some (JObj m)" and absent: "map_of m ''notes'' = None"
      and "truthy (token z)"
      and "map_of d ''links'' = Some (JObj l)" and "map_of l ''files'' = Some files_url"
      and "parse_request w (http w (authorized_get z files_url)) = Inr (JArr entries)"
      and names: "\<forall>e\<in>set entries. \<exists>f. py_getitem e ''filename'' = Inr f"
  shows "fst (download_file_from_draft w z (JObj d) file rule_name tarball dry_run)
           = Inl (FileNotFoundOnZenodo rule_name)"
  using assms(2,4,5,6,7) load_rule_hashes_absent [OF absent lib]
        search_draft_miss [where rule_hashes = "JObj []" and h = JNull, OF _ _ names]
  by (simp add: download_file_from_draft_def require_access_token_def run_simps)

lemma snd_bind_try_subprocess:
  "\<exists>t. snd (py_bind (py_try (subprocess w args) p h) f) = Subprocess args # t"
proof (cases "subprocess_run w args")
  case Returned
  then show ?thesis
    by (cases "f ()") (simp add: subprocess_def py_try_def py_bind_def)
next
  case ProgramMissing
  then show ?thesis
    by (cases "h FileNotFoundError"; cases "fst (h FileNotFoundError)";
        cases "f (projr (fst (h FileNotFoundError)))")
       (auto simp: subprocess_def py_try_def py_bind_def)
next
  case LaunchFailed
  then show ?thesis
    by (cases "h OSError"; cases "fst (h OSError)"; cases "f (projr (fst (h OSError)))")
       (auto simp: subprocess_def py_try_def py_bind_def)
qed

lemma upload_notes_absent:
  assumes lib: "json_loads w ''{}'' = Some (JObj [])"
      and "map_of d ''metadata'' = Some (JObj m)" and absent: "map_of m ''notes'' = None"
      and "truthy (token z)"
      and "map_of d ''links'' = Some (JObj l)" and "map_of l ''bucket'' = Some bucket_url"
  shows "\<exists>t. snd (upload_file_to_draft w z (JObj d) file rule_name False) =
           Subprocess ([F ''curl'' [], F ''-f'' []] @ progress_bar w @
                  [F ''-o'' [], F ''/dev/null'' [], F ''--upload-file'' [],
                   F ''{}'' [JStr (file_path file)], F ''--request'' [], F ''PUT'' [],
                   F ''{}/{}?access_token={}'' [bucket_url, JStr rule_name, token z]]) # t"
  using assms(2,4,5,6) load_rule_hashes_absent [OF absent lib]
  apply (simp add: upload_file_to_draft_def require_access_token_def run_simps)
  apply (rule snd_bind_try_subprocess [simplified])
  done

lemmas sample_defs = sample_world_def sample_zenodo_def sample_file_def sample_loads_def
  sample_parse_request_def deposit_json_def ledger_text_def quoted_def not_found_def ok_def token_def

text \<open>
  C5. When the notes field of a draft or record holds text that is not valid JSON, the
  three operations that read the ledger fail with \<^verbatim>\<open>InvalidZenodoNotesField\<close>, and
  they have sent nothing by then: the ledger is neither reset nor taken as empty. The
  two operations on a draft are behind \<^verbatim>\<open>require_access_token\<close> and read the notes
  once a token is there.
\<close>

theorem corrupt_notes_rejected:
  assumes nts: "map_of m ''notes'' = Some (JStr notes)"
      and invalid: "json_loads w notes = None"
      and deposit: "map_of d ''metadata'' = Some (JObj m)"
  shows "(truthy (token z) \<longrightarrow>
            upload_file_to_draft w z (JObj d) file rule_name tarball
              = (Inl InvalidZenodoNotesField, [])
          \<and> download_file_from_draft w z (JObj d) file rule_name tarball dry_run
              = (Inl InvalidZenodoNotesField, []))
       \<and> download_file_from_record w (JObj d) file rule_name tarball dry_run
              = (Inl InvalidZenodoNotesField, [])"
  using deposit load_rule_hashes_invalid [OF nts invalid]
  by (simp add: upload_file_to_draft_def download_file_from_draft_def download_file_from_record_def
        require_access_token_def run_simps py_raise_def)

theorem corrupt_notes_rejected_witness:
  "map_of [(''title'', JStr ''Data''), (''notes'', JStr ''{oops'')] ''notes'' = Some (JStr ''{oops'')
   \<and> json_loads (sample_world []) ''{oops'' = None
   \<and> map_of (deposit_json (Some (JStr ''{oops'')) []) ''metadata''
        = Some (JObj [(''title'', JStr ''Data''), (''notes'', JStr ''{oops'')])
   \<and> truthy (token sample_zenodo)
   \<and> upload_file_to_draft (sample_world []) sample_zenodo
        (JObj (deposit_json (Some (JStr ''{oops'')) [])) sample_file ''make_data'' False
        = (Inl InvalidZenodoNotesField, [])
   \<and> download_file_from_draft (sample_world []) sample_zenodo
        (JObj (deposit_json (Some (JStr ''{oops'')) [])) sample_file ''make_data'' False False
        = (Inl InvalidZenodoNotesField, [])
   \<and> download_file_from_record (sample_world [])
        (JObj (deposit_json (Some (JStr ''{oops'')) [])) sample_file ''make_data'' False False
        = (Inl InvalidZenodoNotesField, [])"
  using corrupt_notes_rejected
          [of "[(''title'', JStr ''Data''), (''notes'', JStr ''{oops'')]" "''{oops''"
              "sample_world []" "deposit_json (Some (JStr ''{oops'')) []" sample_zenodo
              sample_file "''make_data''" False False]
  by (simp add: sample_defs)

text \<open>
  C9. When the ledger of the draft already holds the name of the local file under the
  rule name, \<^verbatim>\<open>upload_file_to_draft\<close> returns at once: it sends no request and runs no
  transfer, so nothing is deleted, nothing uploaded and the metadata is not rewritten.
  (Without a token the decorator raises first, and nothing is sent either.)
\<close>

theorem upload_up_to_date_is_noop:
  assumes deposit: "map_of d ''metadata'' = Some (JObj m)"
      and nts: "map_of m ''notes'' = Some (JStr notes)"
      and ledger: "json_loads w notes = Some (JObj rule_hashes)"
      and entry: "map_of rule_hashes rule_name = Some (JStr (file_name file))"
  shows "upload_file_to_draft w z (JObj d) file rule_name tarball =
           (if truthy (token z) then (Inr (), [])
            else (Inl (MissingZenodoAccessToken (token_name z)), []))"
  using deposit entry load_rule_hashes_valid [OF nts ledger]
  by (simp add: upload_file_to_draft_def require_access_token_def run_simps py_raise_def
        py_return_def)

theorem upload_up_to_date_is_noop_witness:
  "map_of (deposit_json (Some (JStr (ledger_text ''make_data'' ''7f3a''))) []) ''metadata''
     = Some (JObj [(''title'', JStr ''Data''), (''notes'', JStr (ledger_text ''make_data'' ''7f3a''))])
   \<and> map_of [(''title'', JStr ''Data''), (''notes'', JStr (ledger_text ''make_data'' ''7f3a''))]
        ''notes'' = Some (JStr (ledger_text ''make_data'' ''7f3a''))
   \<and> json_loads (sample_world []) (ledger_text ''make_data'' ''7f3a'')
        = Some (JObj [(''make_data'', JStr ''7f3a'')])
   \<and> map_of [(''make_data'', JStr ''7f3a'')] ''make_data'' = Some (JStr (file_name sample_file))
   \<and> truthy (token sample_zenodo)
   \<and> upload_file_to_draft (sample_world []) sample_zenodo
        (JObj (deposit_json (Some (JStr (ledger_text ''make_data'' ''7f3a''))) []))
        sample_file ''make_data'' True = (Inr (), [])"
  using upload_up_to_date_is_noop
          [of "deposit_json (Some (JStr (ledger_text ''make_data'' ''7f3a''))) []"
              "[(''title'', JStr ''Data''), (''notes'', JStr (ledger_text ''make_data'' ''7f3a''))]"
              "ledger_text ''make_data'' ''7f3a''" "sample_world []"
              "[(''make_data'', JStr ''7f3a'')]" "''make_data''" sample_file sample_zenodo True]
  by (simp add: sample_defs)

text \<open>
  C10. A metadata blob without a notes field is read as the empty ledger \<^verbatim>\<open>{}\<close>, not as
  an error. \<^verbatim>\<open>InvalidZenodoNotesField\<close> comes out of any of the three operations only
  when the notes are there, as text, and \<^verbatim>\<open>json.loads\<close> rejects them. Without the field
  every lookup of a rule name misses: both downloads raise
  \<^verbatim>\<open>FileNotFoundOnZenodo\<close>, and the upload deletes nothing and goes straight to the
  transfer. (\<^verbatim>\<open>json.loads\<close> reads \<^verbatim>\<open>{}\<close> as the empty dict, and \<^verbatim>\<open>parse_request\<close> raises
  API failures, not ledger failures.)
\<close>

theorem notes_absent_is_empty_ledger:
  assumes lib: "json_loads w ''{}'' = Some (JObj [])"
      and pr: "\<forall>r. parse_request w r \<noteq> Inl InvalidZenodoNotesField"
  shows "(fst (upload_file_to_draft w z deposit file rule_name tarball) = Inl InvalidZenodoNotesField
          \<or> fst (download_file_from_draft w z deposit file rule_name tarball dry_run)
               = Inl InvalidZenodoNotesField
          \<or> fst (download_file_from_record w deposit file rule_name tarball dry_run)
               = Inl InvalidZenodoNotesField
          \<longrightarrow> (\<exists>d m s. deposit = JObj d \<and> map_of d ''metadata'' = Some (JObj m)
                 \<and> map_of m ''notes'' = Some (JStr s) \<and> json_loads w s = None))
       \<and> (map_of d ''metadata'' = Some (JObj m) \<and> map_of m ''notes'' = None \<longrightarrow>
            (map_of d ''files'' = Some (JArr entries)
             \<and> (\<forall>e\<in>set entries. \<exists>k. py_getitem e ''key'' = Inr k)
             \<longrightarrow> fst (download_file_from_record w (JObj d) file rule_name tarball dry_run)
                   = Inl (FileNotFoundOnZenodo rule_name))
          \<and> (truthy (token z) \<and> map_of d ''links'' = Some (JObj l)
             \<and> map_of l ''files'' = Some files_url
             \<and> parse_request w (http w (authorized_get z files_url))
                 = Inr (JArr listing)
             \<and> (\<forall>e\<in>set listing. \<exists>f. py_getitem e ''filename'' = Inr f)
             \<longrightarrow> fst (download_file_from_draft w z (JObj d) file rule_name tarball dry_run)
                   = Inl (FileNotFoundOnZenodo rule_name))
          \<and> (truthy (token z) \<and> map_of d ''links'' = Some (JObj l)
             \<and> map_of l ''bucket'' = Some bucket_url
             \<longrightarrow> (\<exists>t. snd (upload_file_to_draft w z (JObj d) file rule_name False) =
                   Subprocess ([F ''curl'' [], F ''-f'' []] @ progress_bar w @
                     [F ''-o'' [], F ''/dev/null'' [], F ''--upload-file'' [],
                      F ''{}'' [JStr (file_path file)], F ''--request'' [], F ''PUT'' [],
                      F ''{}/{}?access_token={}'' [bucket_url, JStr rule_name, token z]]) # t)))"
proof (intro conjI impI)
  assume "fst (upload_file_to_draft w z deposit file rule_name tarball) = Inl InvalidZenodoNotesField
          \<or> fst (download_file_from_draft w z deposit file rule_name tarball dry_run)
               = Inl InvalidZenodoNotesField
          \<or> fst (download_file_from_record w deposit file rule_name tarball dry_run)
               = Inl InvalidZenodoNotesField"
  then show "\<exists>d m s. deposit = JObj d \<and> map_of d ''metadata'' = Some (JObj m)
                 \<and> map_of m ''notes'' = Some (JStr s) \<and> json_loads w s = None"
    using upload_ledger_failure [OF _ lib pr] download_draft_ledger_failure [OF _ lib pr]
          download_record_ledger_failure [OF _ lib]
    by blast
next
  assume "map_of d ''metadata'' = Some (JObj m) \<and> map_of m ''notes'' = None"
     and "map_of d ''files'' = Some (JArr entries)
             \<and> (\<forall>e\<in>set entries. \<exists>k. py_getitem e ''key'' = Inr k)"
  then show "fst (download_file_from_record w (JObj d) file rule_name tarball dry_run)
                   = Inl (FileNotFoundOnZenodo rule_name)"
    using download_record_notes_absent [OF lib] by blast
next
  assume "map_of d ''metadata'' = Some (JObj m) \<and> map_of m ''notes'' = None"
     and "truthy (token z) \<and> map_of d ''links'' = Some (JObj l)
             \<and> map_of l ''files'' = Some files_url
             \<and> parse_request w (http w (authorized_get z files_url))
                 = Inr (JArr listing)
             \<and> (\<forall>e\<in>set listing. \<exists>f. py_getitem e ''filename'' = Inr f)"
  then show "fst (download_file_from_draft w z (JObj d) file rule_name tarball dry_run)
                   = Inl (FileNotFoundOnZenodo rule_name)"
    using download_draft_notes_absent [OF lib] by blast
next
  assume "map_of d ''metadata'' = Some (JObj m) \<and> map_of m ''notes'' = None"
     and "truthy (token z) \<and> map_of d ''links'' = Some (JObj l)
             \<and> map_of l ''bucket'' = Some bucket_url"
  then show "\<exists>t. snd (upload_file_to_draft w z (JObj d) file rule_name False) =
                   Subprocess ([F ''curl'' [], F ''-f'' []] @ progress_bar w @
                     [F ''-o'' [], F ''/dev/null'' [], F ''--upload-file'' [],
                      F ''{}'' [JStr (file_path file)], F ''--request'' [], F ''PUT'' [],
                      F ''{}/{}?access_token={}'' [bucket_url, JStr rule_name, token z]]) # t"
    using upload_notes_absent [OF lib] by blast
qed

theorem notes_absent_is_empty_ledger_witness:
  "json_loads (sample_world [(files_query, ok (JArr [JObj [(''filename'', JStr ''make_data'')]]))]) ''{}''
     = Some (JObj [])
   \<and> (\<forall>r. parse_request (sample_world [(files_query, ok (JArr [JObj [(''filename'', JStr ''make_data'')]]))]) r
          \<noteq> Inl InvalidZenodoNotesField)
   \<and> fst (download_file_from_record
            (sample_world [(files_query, ok (JArr [JObj [(''filename'', JStr ''make_data'')]]))])
            (JObj (deposit_json (Some (JStr ''{oops'')) [])) sample_file ''make_data'' False False)
        = Inl InvalidZenodoNotesField
   \<and> map_of (deposit_json (Some (JStr ''{oops'')) []) ''metadata''
        = Some (JObj [(''title'', JStr ''Data''), (''notes'', JStr ''{oops'')])
   \<and> sample_loads ''{oops'' = None
   \<and> map_of (deposit_json None [JObj [(''key'', JStr ''make_data'')]]) ''metadata''
        = Some (JObj [(''title'', JStr ''Data'')])
   \<and> map_of [(''title'', JStr ''Data'')] ''notes'' = None
   \<and> fst (download_file_from_record
            (sample_world [(files_query, ok (JArr [JObj [(''filename'', JStr ''make_data'')]]))])
            (JObj (deposit_json None [JObj [(''key'', JStr ''make_data'')]]))
            sample_file ''make_data'' False False)
        = Inl (FileNotFoundOnZenodo ''make_data'')
   \<and> truthy (token sample_zenodo)
   \<and> fst (download_file_from_draft
            (sample_world [(files_query, ok (JArr [JObj [(''filename'', JStr ''make_data'')]]))])
            sample_zenodo (JObj (deposit_json None [JObj [(''key'', JStr ''make_data'')]]))
            sample_file ''make_data'' False False)
        = Inl (FileNotFoundOnZenodo ''make_data'')
   \<and> (\<exists>t. snd (upload_file_to_draft
            (sample_world [(files_query, ok (JArr [JObj [(''filename'', JStr ''make_data'')]]))])
            sample_zenodo (JObj (deposit_json None [JObj [(''key'', JStr ''make_data'')]]))
            sample_file ''make_data'' False)
        = Subprocess [F ''curl'' [], F ''-f'' [], F ''-o'' [], F ''/dev/null'' [],
                      F ''--upload-file'' [], F ''{}'' [JStr ''/cache/7f3a''], F ''--request'' [],
                      F ''PUT'' [],
                      F ''{}/{}?access_token={}'' [JStr ''https://sandbox.zenodo.org/api/bucket/1'',
                                                   JStr ''make_data'', JStr ''secret'']] # t)"
  using notes_absent_is_empty_ledger
          [of "sample_world [(files_query, ok (JArr [JObj [(''filename'', JStr ''make_data'')]]))]"
              sample_zenodo "JObj (deposit_json (Some (JStr ''{oops'')) [])" sample_file
              "''make_data''" False False
              "deposit_json None [JObj [(''key'', JStr ''make_data'')]]"
              "[(''title'', JStr ''Data'')]"
              "[JObj [(''key'', JStr ''make_data'')]]"
              "[(''files'', JStr ''https://sandbox.zenodo.org/api/files/1''),
                (''bucket'', JStr ''https://sandbox.zenodo.org/api/bucket/1''),
                (''latest_draft'', JStr ''https://sandbox.zenodo.org/api/draft/1'')]"
              "JStr ''https://sandbox.zenodo.org/api/files/1''"
              "[JObj [(''filename'', JStr ''make_data'')]]"
              "JStr ''https://sandbox.zenodo.org/api/bucket/1''"]
  by (simp add: sample_defs files_query_def authorized_get_def download_file_from_record_def load_rule_hashes_def
        run_simps py_raise_def progress_bar_def)

section \<open>Deleting the draft\<close>

lemma first_unsubmitted_none:
  "\<forall>v\<in>set versions. \<forall>s. py_getitem v ''submitted'' = Inr s \<longrightarrow> truthy s
   \<Longrightarrow> \<exists>e. first_unsubmitted versions = Inl e"
  by (induction versions) (auto split: sum.splits)

lemma first_unsubmitted_found:
  assumes "\<forall>v\<in>set pre. \<exists>s. py_getitem v ''submitted'' = Inr s \<and> truthy s"
      and "py_getitem d ''submitted'' = Inr s" and "\<not> truthy s"
  shows "first_unsubmitted (pre @ d # post) = Inr d"
  using assms by (induction pre) auto

text \<open>
  C7. Called with a token, \<^verbatim>\<open>delete\<close> fails with \<^verbatim>\<open>ZenodoRecordNotFound\<close> when no
  version in the listing of the concept is unsubmitted, and has then sent the search
  only: nothing is deleted. When there is an unsubmitted version, the first in the
  listing, the one \<^verbatim>\<open>DELETE\<close> request sent names the id of that version.
\<close>

theorem delete_unsubmitted_version:
  assumes tok: "truthy (token z)"
      and listing: "body (http w (depositions_query z)) = Some (JArr versions)"
  shows "((\<forall>v\<in>set versions. \<forall>s. py_getitem v ''submitted'' = Inr s \<longrightarrow> truthy s) \<longrightarrow>
            delete w z =
              (Inl (ZenodoRecordNotFound (deposit_id z)),
               [Log INFO (F ''Deleting {} deposit with concept DOI {}...'' [JStr (service z), JStr (doi z)]),
                Http (depositions_query z)]))
       \<and> (versions = pre @ d # post
          \<and> (\<forall>v\<in>set pre. \<exists>s. py_getitem v ''submitted'' = Inr s \<and> truthy s)
          \<and> py_getitem d ''submitted'' = Inr s \<and> \<not> truthy s
          \<and> py_getitem d ''id'' = Inr version_id \<longrightarrow>
            delete w z =
              (case parse_request w (http w (delete_request z version_id)) of
                 Inl e \<Rightarrow>
                   (Inl e,
                    [Log INFO (F ''Deleting {} deposit with concept DOI {}...'' [JStr (service z), JStr (doi z)]),
                     Http (depositions_query z), Http (delete_request z version_id)])
               | Inr j \<Rightarrow>
                   (Inr (),
                    [Log INFO (F ''Deleting {} deposit with concept DOI {}...'' [JStr (service z), JStr (doi z)]),
                     Http (depositions_query z), Http (delete_request z version_id),
                     Log INFO (F ''Successfully deleted deposit {}.'' [JStr (doi z)])])))"
proof (intro conjI impI)
  assume "\<forall>v\<in>set versions. \<forall>s. py_getitem v ''submitted'' = Inr s \<longrightarrow> truthy s"
  then obtain e where "first_unsubmitted versions = Inl e"
    using first_unsubmitted_none by blast
  with tok listing show "delete w z =
              (Inl (ZenodoRecordNotFound (deposit_id z)),
               [Log INFO (F ''Deleting {} deposit with concept DOI {}...'' [JStr (service z), JStr (doi z)]),
                Http (depositions_query z)])"
    by (simp add: delete_def require_access_token_def run_defs unsubmitted_version_def r_json_def)
next
  assume a: "versions = pre @ d # post
          \<and> (\<forall>v\<in>set pre. \<exists>s. py_getitem v ''submitted'' = Inr s \<and> truthy s)
          \<and> py_getitem d ''submitted'' = Inr s \<and> \<not> truthy s
          \<and> py_getitem d ''id'' = Inr version_id"
  then have "first_unsubmitted versions = Inr d"
    using first_unsubmitted_found by blast
  with tok listing a show "delete w z =
              (case parse_request w (http w (delete_request z version_id)) of
                 Inl e \<Rightarrow>
                   (Inl e,
                    [Log INFO (F ''Deleting {} deposit with concept DOI {}...'' [JStr (service z), JStr (doi z)]),
                     Http (depositions_query z), Http (delete_request z version_id)])
               | Inr j \<Rightarrow>
                   (Inr (),
                    [Log INFO (F ''Deleting {} deposit with concept DOI {}...'' [JStr (service z), JStr (doi z)]),
                     Http (depositions_query z), Http (delete_request z version_id),
                     Log INFO (F ''Successfully deleted deposit {}.'' [JStr (doi z)])]))"
    by (simp add: delete_def require_access_token_def run_defs unsubmitted_version_def r_json_def
          delete_request_def split: sum.splits)
qed

theorem delete_unsubmitted_version_witness:
  "truthy (token sample_zenodo)
   \<and> body (http (sample_world [(depositions_query sample_zenodo, ok (JArr [version_json 10 True]))])
             (depositions_query sample_zenodo)) = Some (JArr [version_json 10 True])
   \<and> delete (sample_world [(depositions_query sample_zenodo, ok (JArr [version_json 10 True]))])
        sample_zenodo
       = (Inl (ZenodoRecordNotFound ''1''),
          [Log INFO (F ''Deleting {} deposit with concept DOI {}...''
                       [JStr ''Zenodo Sandbox'', JStr ''10.5072/zenodo.1'']),
           Http (depositions_query sample_zenodo)])
   \<and> body (http (sample_world [(depositions_query sample_zenodo,
                                ok (JArr [version_json 10 True, version_json 11 False])),
                               (delete_request sample_zenodo (JInt 11),
                                \<lparr>status_code = 204, body = None, response_text = []\<rparr>)])
             (depositions_query sample_zenodo))
        = Some (JArr ([version_json 10 True] @ version_json 11 False # []))
   \<and> py_getitem (version_json 10 True) ''submitted'' = Inr (JBool True)
   \<and> py_getitem (version_json 11 False) ''submitted'' = Inr (JBool False)
   \<and> py_getitem (version_json 11 False) ''id'' = Inr (JInt 11)
   \<and> delete (sample_world [(depositions_query sample_zenodo,
                             ok (JArr [version_json 10 True, version_json 11 False])),
                            (delete_request sample_zenodo (JInt 11),
                             \<lparr>status_code = 204, body = None, response_text = []\<rparr>)])
        sample_zenodo
       = (Inr (),
          [Log INFO (F ''Deleting {} deposit with concept DOI {}...''
                       [JStr ''Zenodo Sandbox'', JStr ''10.5072/zenodo.1'']),
           Http (depositions_query sample_zenodo),
           Http (delete_request sample_zenodo (JInt 11)),
           Log INFO (F ''Successfully deleted deposit {}.'' [JStr ''10.5072/zenodo.1''])])"
  using delete_unsubmitted_version
          [of sample_zenodo
              "sample_world [(depositions_query sample_zenodo, ok (JArr [version_json 10 True]))]"
              "[version_json 10 True]" "[]" "version_json 10 True" "[]" "JBool True" "JInt 10"]
        delete_unsubmitted_version
          [of sample_zenodo
              "sample_world [(depositions_query sample_zenodo,
                              ok (JArr [version_json 10 True, version_json 11 False])),
                             (delete_request sample_zenodo (JInt 11),
                              \<lparr>status_code = 204, body = None, response_text = []\<rparr>)]"
              "[version_json 10 True, version_json 11 False]" "[version_json 10 True]"
              "version_json 11 False" "[]" "JBool False" "JInt 11"]
  by (simp add: sample_defs version_json_def depositions_query_def delete_request_def)

section \<open>The session flags\<close>

text \<open>
  C8, amended. With \<^verbatim>\<open>AUTH_VALID\<close> set the probe returns true and sends nothing. With
  neither flag set: a response of status at most 204 whose body is a non-empty list sets
  \<^verbatim>\<open>AUTH_VALID\<close> and returns true; no token, a status above 204 or a body that parses
  to anything else sets \<^verbatim>\<open>AUTH_INVALID\<close> and returns false; a body that does not parse
  raises and sets neither. A call never leaves both flags set unless both were set
  before.
\<close>

theorem ownership_probe_flags:
  "(deposit_id z @ ''_AUTH_VALID'' \<in> flags \<longrightarrow>
      check_if_user_is_owner w z flags = ((Inr True, []), flags))
   \<and> (deposit_id z @ ''_AUTH_VALID'' \<notin> flags \<and> deposit_id z @ ''_AUTH_INVALID'' \<notin> flags \<longrightarrow>
        (truthy (token z) \<and> status_code (http w (ownership_query z)) \<le> 204
         \<and> body (http w (ownership_query z)) = Some (JArr (x # xs)) \<longrightarrow>
           fst (fst (check_if_user_is_owner w z flags)) = Inr True
           \<and> snd (check_if_user_is_owner w z flags) = insert (deposit_id z @ ''_AUTH_VALID'') flags)
      \<and> (\<not> truthy (token z) \<longrightarrow>
           check_if_user_is_owner w z flags =
             ((Inr False, [Log WARNING (F ''User is not authenticated to edit {}.'' [JStr (doi z)])]),
              insert (deposit_id z @ ''_AUTH_INVALID'') flags))
      \<and> (truthy (token z)
          \<and> (status_code (http w (ownership_query z)) > 204
              \<or> (\<exists>j. body (http w (ownership_query z)) = Some j \<and> (\<forall>y ys. j \<noteq> JArr (y # ys)))) \<longrightarrow>
           fst (fst (check_if_user_is_owner w z flags)) = Inr False
           \<and> snd (check_if_user_is_owner w z flags) = insert (deposit_id z @ ''_AUTH_INVALID'') flags)
      \<and> (truthy (token z) \<and> status_code (http w (ownership_query z)) \<le> 204
          \<and> body (http w (ownership_query z)) = None \<longrightarrow>
           fst (fst (check_if_user_is_owner w z flags)) = Inl JSONDecodeError
           \<and> snd (check_if_user_is_owner w z flags) = flags))
   \<and> (\<not> (deposit_id z @ ''_AUTH_VALID'' \<in> flags \<and> deposit_id z @ ''_AUTH_INVALID'' \<in> flags) \<longrightarrow>
        \<not> (deposit_id z @ ''_AUTH_VALID'' \<in> snd (check_if_user_is_owner w z flags)
           \<and> deposit_id z @ ''_AUTH_INVALID'' \<in> snd (check_if_user_is_owner w z flags)))"
proof (intro conjI impI)
  assume "deposit_id z @ ''_AUTH_VALID'' \<in> flags"
  then show "check_if_user_is_owner w z flags = ((Inr True, []), flags)"
    by (simp add: check_if_user_is_owner_def Let_def py_return_def)
next
  assume "deposit_id z @ ''_AUTH_VALID'' \<notin> flags \<and> deposit_id z @ ''_AUTH_INVALID'' \<notin> flags"
     and "truthy (token z) \<and> status_code (http w (ownership_query z)) \<le> 204
         \<and> body (http w (ownership_query z)) = Some (JArr (x # xs))"
  then show "fst (fst (check_if_user_is_owner w z flags)) = Inr True"
        and "snd (check_if_user_is_owner w z flags) = insert (deposit_id z @ ''_AUTH_VALID'') flags"
    by (simp_all add: check_if_user_is_owner_def Let_def r_json_def)
next
  assume "deposit_id z @ ''_AUTH_VALID'' \<notin> flags \<and> deposit_id z @ ''_AUTH_INVALID'' \<notin> flags"
     and "\<not> truthy (token z)"
  then show "check_if_user_is_owner w z flags =
             ((Inr False, [Log WARNING (F ''User is not authenticated to edit {}.'' [JStr (doi z)])]),
              insert (deposit_id z @ ''_AUTH_INVALID'') flags)"
    by (simp add: check_if_user_is_owner_def Let_def)
next
  assume a: "deposit_id z @ ''_AUTH_VALID'' \<notin> flags \<and> deposit_id z @ ''_AUTH_INVALID'' \<notin> flags"
     and b: "truthy (token z)
          \<and> (status_code (http w (ownership_query z)) > 204
              \<or> (\<exists>j. body (http w (ownership_query z)) = Some j \<and> (\<forall>y ys. j \<noteq> JArr (y # ys))))"
  show "fst (fst (check_if_user_is_owner w z flags)) = Inr False"
    using a b
    by (auto simp: check_if_user_is_owner_def Let_def r_json_def split: json.splits list.splits)
  show "snd (check_if_user_is_owner w z flags) = insert (deposit_id z @ ''_AUTH_INVALID'') flags"
    using a b
    by (auto simp: check_if_user_is_owner_def Let_def r_json_def split: json.splits list.splits)
next
  assume "deposit_id z @ ''_AUTH_VALID'' \<notin> flags \<and> deposit_id z @ ''_AUTH_INVALID'' \<notin> flags"
     and "truthy (token z) \<and> status_code (http w (ownership_query z)) \<le> 204
          \<and> body (http w (ownership_query z)) = None"
  then show "fst (fst (check_if_user_is_owner w z flags)) = Inl JSONDecodeError"
        and "snd (check_if_user_is_owner w z flags) = flags"
    by (simp_all add: check_if_user_is_owner_def Let_def r_json_def)
next
  assume "\<not> (deposit_id z @ ''_AUTH_VALID'' \<in> flags \<and> deposit_id z @ ''_AUTH_INVALID'' \<in> flags)"
  then show "\<not> (deposit_id z @ ''_AUTH_VALID'' \<in> snd (check_if_user_is_owner w z flags)
           \<and> deposit_id z @ ''_AUTH_INVALID'' \<in> snd (check_if_user_is_owner w z flags))"
    by (auto simp: check_if_user_is_owner_def Let_def py_return_def
             split: if_splits sum.splits json.splits list.splits)
qed

text \<open>
  C8, as the claim words it, has every failure of the probe set \<^verbatim>\<open>AUTH_INVALID\<close> and
  return false. A success status with a body that is not JSON is a failure that does
  neither: the probe raises and the flags stay as they were.
\<close>

theorem probe_unparsable_sets_no_flag:
  "check_if_user_is_owner
     (sample_world [(ownership_query sample_zenodo,
                     \<lparr>status_code = 200, body = None, response_text = ''<html>''\<rparr>)])
     sample_zenodo {}
   = ((Inl JSONDecodeError,
       [Log DEBUG (F ''Testing if user is authenticated for {}...'' [JStr ''10.5072/zenodo.1'']),
        Http (ownership_query sample_zenodo)]),
      {})"
  by (simp add: check_if_user_is_owner_def Let_def r_json_def sample_defs ownership_query_def)

theorem ownership_probe_flags_witness:
  "''1_AUTH_VALID'' \<in> {''1_AUTH_VALID''}
   \<and> check_if_user_is_owner (sample_world []) sample_zenodo {''1_AUTH_VALID''}
       = ((Inr True, []), {''1_AUTH_VALID''})
   \<and> truthy (token sample_zenodo)
   \<and> status_code (http (sample_world [(ownership_query sample_zenodo, ok (JArr [version_json 11 False]))])
                    (ownership_query sample_zenodo)) \<le> 204
   \<and> body (http (sample_world [(ownership_query sample_zenodo, ok (JArr [version_json 11 False]))])
                    (ownership_query sample_zenodo)) = Some (JArr [version_json 11 False])
   \<and> fst (fst (check_if_user_is_owner
                (sample_world [(ownership_query sample_zenodo, ok (JArr [version_json 11 False]))])
                sample_zenodo {})) = Inr True
   \<and> snd (check_if_user_is_owner
            (sample_world [(ownership_query sample_zenodo, ok (JArr [version_json 11 False]))])
            sample_zenodo {}) = {''1_AUTH_VALID''}
   \<and> \<not> truthy (token (sample_zenodo\<lparr>access_token := None\<rparr>))
   \<and> check_if_user_is_owner (sample_world []) (sample_zenodo\<lparr>access_token := None\<rparr>) {}
       = ((Inr False, [Log WARNING (F ''User is not authenticated to edit {}.''
                                      [JStr ''10.5072/zenodo.1''])]),
          {''1_AUTH_INVALID''})
   \<and> status_code (http (sample_world []) (ownership_query sample_zenodo)) > 204
   \<and> fst (fst (check_if_user_is_owner (sample_world []) sample_zenodo {})) = Inr False
   \<and> snd (check_if_user_is_owner (sample_world []) sample_zenodo {}) = {''1_AUTH_INVALID''}
   \<and> \<not> (''1_AUTH_VALID'' \<in> snd (check_if_user_is_owner (sample_world []) sample_zenodo {})
         \<and> ''1_AUTH_INVALID'' \<in> snd (check_if_user_is_owner (sample_world []) sample_zenodo {}))"
  using ownership_probe_flags [of sample_zenodo "{''1_AUTH_VALID''}" "sample_world []"]
        ownership_probe_flags
          [of sample_zenodo "{}"
              "sample_world [(ownership_query sample_zenodo, ok (JArr [version_json 11 False]))]"
              "version_json 11 False" "[]"]
        ownership_probe_flags [of "sample_zenodo\<lparr>access_token := None\<rparr>" "{}" "sample_world []"]
        ownership_probe_flags [of sample_zenodo "{}" "sample_world []"]
  by (simp add: sample_defs ownership_query_def)

section \<open>The cache upload\<close>

text \<open>The failed searches that \<^verbatim>\<open>upload_file\<close> does answer with a warning and a
  return, having sent the search only.\<close>

lemma upload_file_search_failed:
  assumes tok: "truthy (token z)"
  shows "status_code (http w (depositions_query z)) > 204
         \<and> body (http w (depositions_query z)) = None \<longrightarrow>
           upload_file w z file rule_name tarball =
             (Inr (), [Http (depositions_query z),
                       Log WARNING (F ''{} authentication failed. Unable to upload cache for rule {}.''
                                      [JStr (service z), JStr rule_name])])"
    and "status_code (http w (depositions_query z)) > 204
         \<and> body (http w (depositions_query z)) = Some (JObj kvs)
         \<and> map_of kvs ''message'' = Some message \<longrightarrow>
           upload_file w z file rule_name tarball =
             (Inr (), [Http (depositions_query z),
                       Log WARNING (F ''{} authentication failed. Unable to upload cache for rule {}.''
                                      [JStr (service z), JStr rule_name]),
                       Log DEBUG (F ''{}'' [message])])"
    and "status_code (http w (depositions_query z)) \<le> 204
         \<and> (body (http w (depositions_query z)) = None
            \<or> body (http w (depositions_query z)) = Some (JArr [])) \<longrightarrow>
           upload_file w z file rule_name tarball =
             (Inr (), [Http (depositions_query z),
                       Log WARNING (F ''{} authentication failed. Unable to upload cache for rule {}.''
                                      [JStr (service z), JStr rule_name])])"
  using tok
  by (auto simp: upload_file_def require_access_token_def log_message_def r_json_def run_defs)

text \<open>
  C6. \<^verbatim>\<open>upload_file\<close> is to answer a failed search for the deposit with a warning and
  a normal return. On a response of status 401 whose body is the JSON object
  \<^verbatim>\<open>{"status": 401}\<close> it logs the warning and then raises \<^verbatim>\<open>KeyError\<close>: the
  \<^verbatim>\<open>else\<close> branch of the \<^verbatim>\<open>try\<close> reads \<^verbatim>\<open>data["message"]\<close> unguarded.
\<close>

theorem upload_file_raises_without_message:
  "upload_file
     (sample_world [(depositions_query sample_zenodo,
                     \<lparr>status_code = 401, body = Some (JObj [(''status'', JInt 401)]),
                      response_text = []\<rparr>)])
     sample_zenodo sample_file ''make_data'' False
   = (Inl (KeyError ''message''),
      [Http (depositions_query sample_zenodo),
       Log WARNING (F ''{} authentication failed. Unable to upload cache for rule {}.''
                      [JStr ''Zenodo Sandbox'', JStr ''make_data''])])"
  by (simp add: upload_file_def require_access_token_def log_message_def r_json_def run_defs
        sample_defs depositions_query_def)

section \<open>The cache lookup\<close>

lemma download_file_after_draft:
  assumes "download_file_draft w z file rule_name tarball dry_run = (Inr False, td)"
  shows "download_file w z file rule_name tarball dry_run =
           (case download_file_records w z file rule_name tarball dry_run of
              (Inl e, t) \<Rightarrow> (Inl e, td @ t)
            | (Inr found, t) \<Rightarrow>
                (if found then Inr () else Inl (FileNotFoundOnZenodo (file_name file)), td @ t))"
  using assms
  by (cases "download_file_records w z file rule_name tarball dry_run";
      cases "fst (download_file_records w z file rule_name tarball dry_run)")
     (auto simp: download_file_def run_defs)

lemma py_contains_error: "py_contains x needle = Inl e \<Longrightarrow> e = TypeError"
  by (cases x) auto

lemma raise_ZenodoError_obj:
  "raise_ZenodoError z (JObj kvs) =
     (Inl (ZenodoError (case map_of kvs ''status'' of None \<Rightarrow> JStr ''unknown'' | Some s \<Rightarrow> s)
             (case map_of kvs ''message'' of
                None \<Rightarrow> JStr (''An error occurred while accessing '' @ service z @ ''.'')
              | Some m \<Rightarrow> m)), [])"
  by (simp add: raise_ZenodoError_def run_defs split: option.splits)

lemma raise_ZenodoError_events: "snd (raise_ZenodoError z data) = []"
  by (cases data) (simp_all add: raise_ZenodoError_def run_defs split: option.splits)

lemma download_file_records_failed:
  assumes "status_code (http w (record_query z)) > 204"
  shows "download_file_records w z file rule_name tarball dry_run =
           (let data = (case body (http w (record_query z)) of None \<Rightarrow> JObj [] | Some d \<Rightarrow> d) in
            (case py_get data ''message'' (JStr []) of
               Inl e \<Rightarrow> Inl e
             | Inr message \<Rightarrow>
                 (case py_contains message ''PID is not registered'' of
                    Inl e \<Rightarrow> Inl e
                  | Inr unregistered \<Rightarrow>
                      if unregistered then Inr False
                      else fst (raise_ZenodoError z data :: bool run))),
             [Log DEBUG (F ''Attempting to access {} record with DOI {}...''
                           [JStr (service z), JStr (doi z)]),
              Http (record_query z)])"
  using assms
  by (auto simp: download_file_records_def raise_ZenodoError_events r_json_def run_defs Let_def
           split: option.splits sum.splits)


text \<open>
  When the lookup reaches the question whether the concept has a published record and
  the answer has a status above 204: a message holding \<^verbatim>\<open>PID is not registered\<close>
  makes the lookup end as a cache miss, \<^verbatim>\<open>FileNotFoundOnZenodo\<close>, without searching
  any record; any other text as message, no message, or a body that is not JSON makes
  it raise \<^verbatim>\<open>ZenodoError\<close>. Whatever the body, the lookup ends in an exception, and
  that exception is the cache miss only if the message holds the indication.
\<close>

theorem unregistered_is_a_miss:
  assumes reach: "download_file_draft w z file rule_name tarball dry_run = (Inr False, td)"
      and failed: "status_code (http w (record_query z)) > 204"
  shows "(body (http w (record_query z)) = Some (JObj kvs)
          \<and> map_of kvs ''message'' = Some (JStr m) \<longrightarrow>
            download_file w z file rule_name tarball dry_run =
              (if str_contains m ''PID is not registered''
               then Inl (FileNotFoundOnZenodo (file_name file))
               else Inl (ZenodoError
                           (case map_of kvs ''status'' of None \<Rightarrow> JStr ''unknown'' | Some s \<Rightarrow> s)
                           (JStr m)),
               td @ [Log DEBUG (F ''Attempting to access {} record with DOI {}...''
                                  [JStr (service z), JStr (doi z)]),
                     Http (record_query z)]))
       \<and> (body (http w (record_query z)) = Some (JObj kvs)
          \<and> map_of kvs ''message'' = None \<longrightarrow>
            download_file w z file rule_name tarball dry_run =
              (Inl (ZenodoError
                      (case map_of kvs ''status'' of None \<Rightarrow> JStr ''unknown'' | Some s \<Rightarrow> s)
                      (JStr (''An error occurred while accessing '' @ service z @ ''.''))),
               td @ [Log DEBUG (F ''Attempting to access {} record with DOI {}...''
                                  [JStr (service z), JStr (doi z)]),
                     Http (record_query z)]))
       \<and> (body (http w (record_query z)) = None \<longrightarrow>
            download_file w z file rule_name tarball dry_run =
              (Inl (ZenodoError (JStr ''unknown'')
                      (JStr (''An error occurred while accessing '' @ service z @ ''.''))),
               td @ [Log DEBUG (F ''Attempting to access {} record with DOI {}...''
                                  [JStr (service z), JStr (doi z)]),
                     Http (record_query z)]))
       \<and> (\<exists>e. fst (download_file w z file rule_name tarball dry_run) = Inl e)
       \<and> (\<forall>n. fst (download_file w z file rule_name tarball dry_run) = Inl (FileNotFoundOnZenodo n) \<longrightarrow>
            (\<exists>kvs message. body (http w (record_query z)) = Some (JObj kvs)
               \<and> map_of kvs ''message'' = Some message
               \<and> py_contains message ''PID is not registered'' = Inr True))"
proof -
  note unfold = download_file_after_draft [OF reach] download_file_records_failed [OF failed]
  show ?thesis
  proof (intro conjI impI allI)
    assume "body (http w (record_query z)) = Some (JObj kvs) \<and> map_of kvs ''message'' = Some (JStr m)"
    then show "download_file w z file rule_name tarball dry_run =
              (if str_contains m ''PID is not registered''
               then Inl (FileNotFoundOnZenodo (file_name file))
               else Inl (ZenodoError
                           (case map_of kvs ''status'' of None \<Rightarrow> JStr ''unknown'' | Some s \<Rightarrow> s)
                           (JStr m)),
               td @ [Log DEBUG (F ''Attempting to access {} record with DOI {}...''
                                  [JStr (service z), JStr (doi z)]),
                     Http (record_query z)])"
      by (simp add: unfold raise_ZenodoError_obj)
  next
    assume "body (http w (record_query z)) = Some (JObj kvs) \<and> map_of kvs ''message'' = None"
    then show "download_file w z file rule_name tarball dry_run =
              (Inl (ZenodoError
                      (case map_of kvs ''status'' of None \<Rightarrow> JStr ''unknown'' | Some s \<Rightarrow> s)
                      (JStr (''An error occurred while accessing '' @ service z @ ''.''))),
               td @ [Log DEBUG (F ''Attempting to access {} record with DOI {}...''
                                  [JStr (service z), JStr (doi z)]),
                     Http (record_query z)])"
      by (simp add: unfold raise_ZenodoError_obj)
  next
    assume "body (http w (record_query z)) = None"
    then show "download_file w z file rule_name tarball dry_run =
              (Inl (ZenodoError (JStr ''unknown'')
                      (JStr (''An error occurred while accessing '' @ service z @ ''.''))),
               td @ [Log DEBUG (F ''Attempting to access {} record with DOI {}...''
                                  [JStr (service z), JStr (doi z)]),
                     Http (record_query z)])"
      by (simp add: unfold raise_ZenodoError_obj)
  next
    show "\<exists>e. fst (download_file w z file rule_name tarball dry_run) = Inl e"
      by (cases "body (http w (record_query z))"; cases "the (body (http w (record_query z)))")
         (auto simp: unfold raise_ZenodoError_obj Let_def split: option.splits sum.splits)
  next
    fix n
    assume "fst (download_file w z file rule_name tarball dry_run) = Inl (FileNotFoundOnZenodo n)"
    then show "\<exists>kvs message. body (http w (record_query z)) = Some (JObj kvs)
               \<and> map_of kvs ''message'' = Some message
               \<and> py_contains message ''PID is not registered'' = Inr True"
      by (cases "body (http w (record_query z))"; cases "the (body (http w (record_query z)))")
         (auto simp: unfold raise_ZenodoError_obj Let_def dest: py_contains_error
               split: option.splits sum.splits if_splits)
  qed
qed

theorem unregistered_is_a_miss_witness:
  "download_file_draft (sample_world [(record_query sample_zenodo, unregistered_answer)])
      sample_zenodo sample_file ''make_data'' False False
     = (Inr False,
        [Log DEBUG (F ''Attempting to access {} deposit with DOI {}...''
                      [JStr ''Zenodo Sandbox'', JStr ''10.5072/zenodo.1'']),
         Http (depositions_query sample_zenodo),
         Log DEBUG (F ''Failed to access {} deposit with DOI {}.''
                      [JStr ''Zenodo Sandbox'', JStr ''10.5072/zenodo.1''])])
   \<and> status_code (http (sample_world [(record_query sample_zenodo, unregistered_answer)])
                    (record_query sample_zenodo)) > 204
   \<and> str_contains ''PID is not registered'' ''PID is not registered''
   \<and> download_file (sample_world [(record_query sample_zenodo, unregistered_answer)])
        sample_zenodo sample_file ''make_data'' False False
       = (Inl (FileNotFoundOnZenodo ''7f3a''),
          [Log DEBUG (F ''Attempting to access {} deposit with DOI {}...''
                        [JStr ''Zenodo Sandbox'', JStr ''10.5072/zenodo.1'']),
           Http (depositions_query sample_zenodo),
           Log DEBUG (F ''Failed to access {} deposit with DOI {}.''
                        [JStr ''Zenodo Sandbox'', JStr ''10.5072/zenodo.1'']),
           Log DEBUG (F ''Attempting to access {} record with DOI {}...''
                        [JStr ''Zenodo Sandbox'', JStr ''10.5072/zenodo.1'']),
           Http (record_query sample_zenodo)])
   \<and> status_code (http (sample_world [(record_query sample_zenodo, server_error_answer)])
                    (record_query sample_zenodo)) > 204
   \<and> \<not> str_contains ''Internal Server Error'' ''PID is not registered''
   \<and> download_file (sample_world [(record_query sample_zenodo, server_error_answer)])
        sample_zenodo sample_file ''make_data'' False False
       = (Inl (ZenodoError (JInt 500) (JStr ''Internal Server Error'')),
          [Log DEBUG (F ''Attempting to access {} deposit with DOI {}...''
                        [JStr ''Zenodo Sandbox'', JStr ''10.5072/zenodo.1'']),
           Http (depositions_query sample_zenodo),
           Log DEBUG (F ''Failed to access {} deposit with DOI {}.''
                        [JStr ''Zenodo Sandbox'', JStr ''10.5072/zenodo.1'']),
           Log DEBUG (F ''Attempting to access {} record with DOI {}...''
                        [JStr ''Zenodo Sandbox'', JStr ''10.5072/zenodo.1'']),
           Http (record_query sample_zenodo)])
   \<and> fst (download_file (sample_world []) sample_zenodo sample_file ''make_data'' False False)
       = Inl (ZenodoError (JStr ''unknown'')
                (JStr ''An error occurred while accessing Zenodo Sandbox.''))"
  using unregistered_is_a_miss
          [of "sample_world [(record_query sample_zenodo, unregistered_answer)]" sample_zenodo
              sample_file "''make_data''" False False
              "[Log DEBUG (F ''Attempting to access {} deposit with DOI {}...''
                      [JStr ''Zenodo Sandbox'', JStr ''10.5072/zenodo.1'']),
                Http (depositions_query sample_zenodo),
                Log DEBUG (F ''Failed to access {} deposit with DOI {}.''
                      [JStr ''Zenodo Sandbox'', JStr ''10.5072/zenodo.1''])]"
              "[(''message'', JStr ''PID is not registered''), (''status'', JInt 404)]"
              "''PID is not registered''"]
        unregistered_is_a_miss
          [of "sample_world [(record_query sample_zenodo, server_error_answer)]" sample_zenodo
              sample_file "''make_data''" False False
              "[Log DEBUG (F ''Attempting to access {} deposit with DOI {}...''
                      [JStr ''Zenodo Sandbox'', JStr ''10.5072/zenodo.1'']),
                Http (depositions_query sample_zenodo),
                Log DEBUG (F ''Failed to access {} deposit with DOI {}.''
                      [JStr ''Zenodo Sandbox'', JStr ''10.5072/zenodo.1''])]"
              "[(''message'', JStr ''Internal Server Error''), (''status'', JInt 500)]"
              "''Internal Server Error''"]
        unregistered_is_a_miss
          [of "sample_world []" sample_zenodo
              sample_file "''make_data''" False False
              "[Log DEBUG (F ''Attempting to access {} deposit with DOI {}...''
                      [JStr ''Zenodo Sandbox'', JStr ''10.5072/zenodo.1'']),
                Http (depositions_query sample_zenodo),
                Log DEBUG (F ''Failed to access {} deposit with DOI {}.''
                      [JStr ''Zenodo Sandbox'', JStr ''10.5072/zenodo.1''])]"]
  by (simp add: sample_defs download_file_draft_def log_message_def r_json_def run_defs
        depositions_query_def record_query_def unregistered_answer_def server_error_answer_def)

text \<open>
  C4. The remaining answers with a status above 204 do not end in \<^verbatim>\<open>ZenodoError\<close>.
  The code looks for the indication with \<^verbatim>\<open>"PID is not registered" in
  data.get("message", "")\<close>, outside any \<^verbatim>\<open>try\<close>: on a message that is a number
  the membership test raises \<^verbatim>\<open>TypeError\<close>, and on a body that parses to a list
  \<^verbatim>\<open>data.get\<close> raises \<^verbatim>\<open>AttributeError\<close>. The lookup ends in that exception
  after the question for the record, before the branch that raises
  \<^verbatim>\<open>ZenodoError\<close> is reached.
\<close>

theorem record_query_failure_not_ZenodoError:
  "download_file (sample_world [(record_query sample_zenodo, numeric_message_answer)])
     sample_zenodo sample_file ''make_data'' False False
     = (Inl TypeError,
        [Log DEBUG (F ''Attempting to access {} deposit with DOI {}...''
                      [JStr ''Zenodo Sandbox'', JStr ''10.5072/zenodo.1'']),
         Http (depositions_query sample_zenodo),
         Log DEBUG (F ''Failed to access {} deposit with DOI {}.''
                      [JStr ''Zenodo Sandbox'', JStr ''10.5072/zenodo.1'']),
         Log DEBUG (F ''Attempting to access {} record with DOI {}...''
                      [JStr ''Zenodo Sandbox'', JStr ''10.5072/zenodo.1'']),
         Http (record_query sample_zenodo)])
   \<and> download_file (sample_world [(record_query sample_zenodo, list_answer)])
       sample_zenodo sample_file ''make_data'' False False
     = (Inl AttributeError,
        [Log DEBUG (F ''Attempting to access {} deposit with DOI {}...''
                      [JStr ''Zenodo Sandbox'', JStr ''10.5072/zenodo.1'']),
         Http (depositions_query sample_zenodo),
         Log DEBUG (F ''Failed to access {} deposit with DOI {}.''
                      [JStr ''Zenodo Sandbox'', JStr ''10.5072/zenodo.1'']),
         Log DEBUG (F ''Attempting to access {} record with DOI {}...''
                      [JStr ''Zenodo Sandbox'', JStr ''10.5072/zenodo.1'']),
         Http (record_query sample_zenodo)])"
  by (simp add: download_file_def download_file_draft_def download_file_records_def
        log_message_def r_json_def run_defs sample_defs depositions_query_def record_query_def
        numeric_message_answer_def list_answer_def)

subsection \<open>The order of the search\<close>

lemma search_draft_stale:
  assumes "\<forall>x\<in>set pre. \<exists>f. py_getitem x ''filename'' = Inr f \<and> f \<noteq> JStr rule_name"
      and "py_getitem entry ''filename'' = Inr (JStr rule_name)"
      and "py_get rule_hashes rule_name JNull = Inr rule_hash"
      and "rule_hash \<noteq> JStr (file_name file)"
  shows "search_draft w z file rule_name tarball dry_run rule_hashes (pre @ entry # post) =
           (Inl (FileNotFoundOnZenodo rule_name),
            concat (map (passed_over rule_hash) pre) @
            [Log DEBUG (F ''Inspecting candidate file `{}` with hash `{}`...''
                          [JStr rule_name, rule_hash]),
             Log DEBUG (F ''File {} found, but it has the wrong hash. Skipping...''
                          [JStr rule_name])])"
  using assms
  by (induction pre) (auto simp: run_defs passed_over_def)


lemma download_file_from_draft_stale:
  assumes tok: "truthy (token z)"
      and "py_getitem draft ''metadata'' = Inr metadata"
      and "load_rule_hashes w metadata = Inr rule_hashes"
      and "py_getitem draft ''links'' = Inr links"
      and "py_getitem links ''files'' = Inr files_url"
      and "parse_request w (http w (authorized_get z files_url)) = Inr (JArr (pre @ entry # post))"
      and stale: "\<forall>x\<in>set pre. \<exists>f. py_getitem x ''filename'' = Inr f \<and> f \<noteq> JStr rule_name"
         "py_getitem entry ''filename'' = Inr (JStr rule_name)"
         "py_get rule_hashes rule_name JNull = Inr rule_hash"
         "rule_hash \<noteq> JStr (file_name file)"
  shows "download_file_from_draft w z draft file rule_name tarball dry_run =
           (Inl (FileNotFoundOnZenodo rule_name),
            [Http (authorized_get z files_url),
             Log DEBUG (F ''Searching for file `{}` with hash `{}`...''
                          [JStr rule_name, JStr (file_name file)])] @
            concat (map (passed_over rule_hash) pre) @
            [Log DEBUG (F ''Inspecting candidate file `{}` with hash `{}`...''
                          [JStr rule_name, rule_hash]),
             Log DEBUG (F ''File {} found, but it has the wrong hash. Skipping...''
                          [JStr rule_name])])"
  using assms(1-6) search_draft_stale [OF stale, of w z tarball dry_run post]
  by (simp add: download_file_from_draft_def require_access_token_def run_defs)


lemma download_file_draft_miss:
  assumes "status_code (http w (depositions_query z)) \<le> 204"
      and "body (http w (depositions_query z)) = Some (JArr (version # versions))"
      and "py_get version ''links'' (JObj []) = Inr vlinks"
      and "py_get vlinks ''latest_draft'' JNull = Inr draft_url"
      and "truthy draft_url"
      and "status_code (http w (authorized_get z draft_url)) \<le> 204"
      and "body (http w (authorized_get z draft_url)) = Some draft"
      and "download_file_from_draft w z draft file rule_name tarball dry_run
             = (Inl (FileNotFoundOnZenodo n), t)"
  shows "download_file_draft w z file rule_name tarball dry_run =
           (Inr False,
            [Log DEBUG (F ''Attempting to access {} deposit with DOI {}...''
                          [JStr (service z), JStr (doi z)]),
             Http (depositions_query z), Http (authorized_get z draft_url)] @ t @
            [Log DEBUG (F ''File {} not found in deposit with DOI {}.''
                          [JStr rule_name, JStr (doi z)])])"
  using assms
  by (simp add: download_file_draft_def r_json_def run_defs)

lemma search_records_miss:
  assumes "download_file_from_record w record file rule_name tarball dry_run
             = (Inl (FileNotFoundOnZenodo n), t)"
  shows "search_records w z file rule_name tarball dry_run (record # rest) =
           (fst (search_records w z file rule_name tarball dry_run rest),
            t @ Log DEBUG (F ''File {} not found in record with DOI {}.''
                             [JStr rule_name, JStr (doi z)])
              # snd (search_records w z file rule_name tarball dry_run rest))"
  using assms by (simp split: prod.splits)

lemma download_file_draft_first:
  "snd (download_file w z file rule_name tarball dry_run) =
     snd (download_file_draft w z file rule_name tarball dry_run) @
     (if fst (download_file_draft w z file rule_name tarball dry_run) = Inr False
      then snd (download_file_records w z file rule_name tarball dry_run) else [])"
  by (cases "download_file_draft w z file rule_name tarball dry_run";
      cases "fst (download_file_draft w z file rule_name tarball dry_run)";
      cases "download_file_records w z file rule_name tarball dry_run";
      cases "fst (download_file_records w z file rule_name tarball dry_run)")
     (auto simp: download_file_def run_defs)

lemma download_file_records_listing:
  assumes "status_code (http w (record_query z)) \<le> 204"
      and "status_code (http w (records_search z)) \<le> 204"
      and "body (http w (records_search z)) = Some (JObj found)"
      and "map_of found ''hits'' = Some (JObj hits)"
      and "map_of hits ''hits'' = Some (JArr listing)"
  shows "download_file_records w z file rule_name tarball dry_run =
           (fst (search_records w z file rule_name tarball dry_run (rev listing)),
            [Log DEBUG (F ''Attempting to access {} record with DOI {}...''
                          [JStr (service z), JStr (doi z)]),
             Http (record_query z), Http (records_search z)] @
            snd (search_records w z file rule_name tarball dry_run (rev listing)))"
  using assms
  by (simp add: download_file_records_def r_json_def run_defs)

lemma search_records_skip:
  assumes "\<forall>r\<in>set newer. \<exists>n t. download_file_from_record w r file rule_name tarball dry_run
                                  = (Inl (FileNotFoundOnZenodo n), t)"
  shows "search_records w z file rule_name tarball dry_run (newer @ rest) =
           (fst (search_records w z file rule_name tarball dry_run rest),
            missed w z file rule_name tarball dry_run newer @
            snd (search_records w z file rule_name tarball dry_run rest))"
  using assms
proof (induction newer)
  case Nil
  show ?case by (simp add: missed_def)
next
  case (Cons r newer)
  then obtain n t where "download_file_from_record w r file rule_name tarball dry_run
                           = (Inl (FileNotFoundOnZenodo n), t)" by auto
  with Cons show ?case
    by (simp add: missed_def split: prod.splits)
qed

lemma search_records_decided:
  assumes "\<forall>n. fst (download_file_from_record w record file rule_name tarball dry_run)
                  \<noteq> Inl (FileNotFoundOnZenodo n)"
  shows "search_records w z file rule_name tarball dry_run (record # rest) =
           (map_sum id (\<lambda>u. True) (fst (download_file_from_record w record file rule_name tarball dry_run)),
            snd (download_file_from_record w record file rule_name tarball dry_run))"
  using assms
  by (cases "download_file_from_record w record file rule_name tarball dry_run";
      cases "fst (download_file_from_record w record file rule_name tarball dry_run)";
      cases "projl (fst (download_file_from_record w record file rule_name tarball dry_run))")
     auto

lemma no_miss_bind:
  "no_miss m \<Longrightarrow> (\<And>v. no_miss (f v)) \<Longrightarrow> no_miss (py_bind m f)"
proof (cases m)
  case (Pair r t)
  assume m: "no_miss m" and f: "\<And>v. no_miss (f v)"
  show ?thesis
  proof (cases r)
    case (Inl e)
    with Pair m show ?thesis by (simp add: no_miss_def py_bind_def)
  next
    case (Inr v)
    with Pair f [of v] show ?thesis
      by (cases "f v") (simp add: no_miss_def py_bind_def)
  qed
qed

lemma no_miss_basic:
  "no_miss (py_return v)" "no_miss (emit ev)" "no_miss (subprocess w args)"
  "no_miss (py_raise TypeError)" "no_miss (py_raise FileNotFoundError)"
  "no_miss (py_raise ReadError)" "no_miss (py_raise ZenodoDownloadError)"
  by (simp_all add: no_miss_def py_return_def emit_def subprocess_def py_raise_def
        split: launch.splits)

lemma no_miss_getitem: "no_miss (lift (py_getitem j k))"
  by (cases j) (auto simp: no_miss_def lift_def split: option.splits)

lemma no_miss_members: "\<forall>n. safe_extract_members cwd path tar \<noteq> Inl (FileNotFoundOnZenodo n)"
  by (induction tar) (simp_all add: Let_def)

lemma no_miss_extract_tarball: "no_miss (extract_tarball w file)"
proof (cases "fetched w file")
  case (Archive tb)
  then show ?thesis
    using no_miss_members [of "getcwd w" "file" tb]
    by (cases "safe_extract_members (getcwd w) file tb")
       (auto simp: no_miss_def extract_tarball_def safe_extract_def TarFile_extractall_def
             run_defs Let_def)
qed (simp_all add: no_miss_def extract_tarball_def run_defs Let_def)

lemma no_miss_download_record_entry:
  "no_miss (download_record_entry w file entry tarball dry_run)"
  unfolding download_record_entry_def
  by (auto intro!: no_miss_bind no_miss_basic no_miss_getitem no_miss_extract_tarball
           split: json.splits)

lemma search_record_match:
  assumes "\<forall>x\<in>set pre. \<exists>k. py_getitem x ''key'' = Inr k \<and> k \<noteq> JStr rule_name"
      and "py_getitem entry ''key'' = Inr (JStr rule_name)"
      and "py_get rule_hashes rule_name JNull = Inr (JStr (file_name file))"
  shows "search_record w file rule_name tarball dry_run rule_hashes (pre @ entry # post) =
           download_record_entry w file entry tarball dry_run"
  using assms by (induction pre) auto

lemma download_file_from_record_match:
  assumes "py_getitem record ''metadata'' = Inr metadata"
      and "load_rule_hashes w metadata = Inr rule_hashes"
      and "py_getitem record ''files'' = Inr (JArr (pre @ entry # post))"
      and found: "\<forall>x\<in>set pre. \<exists>k. py_getitem x ''key'' = Inr k \<and> k \<noteq> JStr rule_name"
         "py_getitem entry ''key'' = Inr (JStr rule_name)"
         "py_get rule_hashes rule_name JNull = Inr (JStr (file_name file))"
  shows "download_file_from_record w record file rule_name tarball dry_run =
           download_record_entry w file entry tarball dry_run"
  using assms(1-3) search_record_match [OF found, of w tarball dry_run post]
  by (simp add: download_file_from_record_def run_defs)

lemma no_miss_try:
  "no_miss m \<Longrightarrow> (\<And>e. no_miss (h e)) \<Longrightarrow> no_miss (py_try m p h)"
proof (cases m)
  case (Pair r t)
  assume m: "no_miss m" and h: "\<And>e. no_miss (h e)"
  show ?thesis
  proof (cases r)
    case (Inl e)
    with Pair m h [of e] show ?thesis
      by (cases "h e") (simp add: no_miss_def py_try_def)
  next
    case (Inr v)
    with Pair show ?thesis by (simp add: no_miss_def py_try_def)
  qed
qed

lemma no_miss_download_draft_entry:
  "no_miss (download_draft_entry w z file entry tarball dry_run)"
  unfolding download_draft_entry_def
  by (auto intro!: no_miss_bind no_miss_try no_miss_basic no_miss_getitem no_miss_extract_tarball)

lemma search_draft_match:
  assumes "\<forall>x\<in>set pre. \<exists>f. py_getitem x ''filename'' = Inr f \<and> f \<noteq> JStr rule_name"
      and "py_getitem entry ''filename'' = Inr (JStr rule_name)"
      and "py_get rule_hashes rule_name JNull = Inr (JStr (file_name file))"
  shows "search_draft w z file rule_name tarball dry_run rule_hashes (pre @ entry # post) =
           (fst (download_draft_entry w z file entry tarball dry_run),
            concat (map (passed_over (JStr (file_name file))) pre) @
            Log DEBUG (F ''Inspecting candidate file `{}` with hash `{}`...''
                         [JStr rule_name, JStr (file_name file)]) #
            snd (download_draft_entry w z file entry tarball dry_run))"
  using assms
  by (induction pre) (auto simp: run_defs passed_over_def)

lemma download_file_from_draft_match:
  assumes tok: "truthy (token z)"
      and "py_getitem draft ''metadata'' = Inr metadata"
      and "load_rule_hashes w metadata = Inr rule_hashes"
      and "py_getitem draft ''links'' = Inr links"
      and "py_getitem links ''files'' = Inr files_url"
      and "parse_request w (http w (authorized_get z files_url)) = Inr (JArr (pre @ entry # post))"
      and found: "\<forall>x\<in>set pre. \<exists>f. py_getitem x ''filename'' = Inr f \<and> f \<noteq> JStr rule_name"
         "py_getitem entry ''filename'' = Inr (JStr rule_name)"
         "py_get rule_hashes rule_name JNull = Inr (JStr (file_name file))"
  shows "download_file_from_draft w z draft file rule_name tarball dry_run =
           (fst (download_draft_entry w z file entry tarball dry_run),
            [Http (authorized_get z files_url),
             Log DEBUG (F ''Searching for file `{}` with hash `{}`...''
                          [JStr rule_name, JStr (file_name file)])] @
            concat (map (passed_over (JStr (file_name file))) pre) @
            Log DEBUG (F ''Inspecting candidate file `{}` with hash `{}`...''
                         [JStr rule_name, JStr (file_name file)]) #
            snd (download_draft_entry w z file entry tarball dry_run))"
  using assms(1-6) search_draft_match [OF found, of w z tarball dry_run post]
  by (simp add: download_file_from_draft_def require_access_token_def run_defs)

lemma download_file_draft_decided:
  assumes "status_code (http w (depositions_query z)) \<le> 204"
      and "body (http w (depositions_query z)) = Some (JArr (version # versions))"
      and "py_get version ''links'' (JObj []) = Inr vlinks"
      and "py_get vlinks ''latest_draft'' JNull = Inr draft_url"
      and "truthy draft_url"
      and "status_code (http w (authorized_get z draft_url)) \<le> 204"
      and "body (http w (authorized_get z draft_url)) = Some draft"
      and "download_file_from_draft w z draft file rule_name tarball dry_run = (res, t)"
      and "\<forall>n. res \<noteq> Inl (FileNotFoundOnZenodo n)"
  shows "download_file w z file rule_name tarball dry_run =
           (res,
            [Log DEBUG (F ''Attempting to access {} deposit with DOI {}...''
                          [JStr (service z), JStr (doi z)]),
             Http (depositions_query z), Http (authorized_get z draft_url)] @ t)"
  using assms
  by (cases res; cases "projl res")
     (auto simp: download_file_def download_file_draft_def r_json_def run_defs)

lemma newest_of_sorted:
  assumes "sorted_wrt (<) (map record_id (older @ version # newer))"
      and "r \<in> set (older @ version # newer)" and "r \<notin> set newer"
  shows "record_id r \<le> record_id version"
  using assms by (auto simp: sorted_wrt_append)

lemma download_file_draft_stale:
  assumes "truthy (token z)"
      and "status_code (http w (depositions_query z)) \<le> 204"
      and "body (http w (depositions_query z)) = Some (JArr (version # versions))"
      and "py_get version ''links'' (JObj []) = Inr vlinks"
      and "py_get vlinks ''latest_draft'' JNull = Inr draft_url"
      and "truthy draft_url"
      and "status_code (http w (authorized_get z draft_url)) \<le> 204"
      and "body (http w (authorized_get z draft_url)) = Some draft"
      and "py_getitem draft ''metadata'' = Inr metadata"
      and "load_rule_hashes w metadata = Inr rule_hashes"
      and "py_getitem draft ''links'' = Inr links"
      and "py_getitem links ''files'' = Inr files_url"
      and "parse_request w (http w (authorized_get z files_url)) = Inr (JArr (pre @ entry # post))"
      and "\<forall>x\<in>set pre. \<exists>f. py_getitem x ''filename'' = Inr f \<and> f \<noteq> JStr rule_name"
      and "py_getitem entry ''filename'' = Inr (JStr rule_name)"
      and "py_get rule_hashes rule_name JNull = Inr rule_hash"
      and "rule_hash \<noteq> JStr (file_name file)"
  shows "download_file_draft w z file rule_name tarball dry_run =
           (Inr False,
            [Log DEBUG (F ''Attempting to access {} deposit with DOI {}...''
                          [JStr (service z), JStr (doi z)]),
             Http (depositions_query z),
             Http (authorized_get z draft_url),
             Http (authorized_get z files_url),
             Log DEBUG (F ''Searching for file `{}` with hash `{}`...''
                          [JStr rule_name, JStr (file_name file)])] @
            concat (map (passed_over rule_hash) pre) @
            [Log DEBUG (F ''Inspecting candidate file `{}` with hash `{}`...''
                          [JStr rule_name, rule_hash]),
             Log DEBUG (F ''File {} found, but it has the wrong hash. Skipping...''
                          [JStr rule_name]),
             Log DEBUG (F ''File {} not found in deposit with DOI {}.''
                          [JStr rule_name, JStr (doi z)])])"
proof -
  have stale: "download_file_from_draft w z draft file rule_name tarball dry_run =
           (Inl (FileNotFoundOnZenodo rule_name),
            [Http (authorized_get z files_url),
             Log DEBUG (F ''Searching for file `{}` with hash `{}`...''
                          [JStr rule_name, JStr (file_name file)])] @
            concat (map (passed_over rule_hash) pre) @
            [Log DEBUG (F ''Inspecting candidate file `{}` with hash `{}`...''
                          [JStr rule_name, rule_hash]),
             Log DEBUG (F ''File {} found, but it has the wrong hash. Skipping...''
                          [JStr rule_name])])"
    using assms by (intro download_file_from_draft_stale) auto
  show ?thesis
    using download_file_draft_miss [OF assms(2-8) stale] by simp
qed

lemma download_file_last_match:
  assumes reach: "download_file_draft w z file rule_name tarball dry_run = (Inr False, td)"
      and listing: "status_code (http w (record_query z)) \<le> 204"
         "status_code (http w (records_search z)) \<le> 204"
         "body (http w (records_search z)) = Some (JObj found)"
         "map_of found ''hits'' = Some (JObj hits)"
         "map_of hits ''hits'' = Some (JArr (listed_before @ version # listed_after))"
      and skip: "\<forall>r\<in>set listed_after. \<exists>n t. download_file_from_record w r file rule_name tarball dry_run
                                  = (Inl (FileNotFoundOnZenodo n), t)"
      and match: "py_getitem version ''metadata'' = Inr metadata"
         "load_rule_hashes w metadata = Inr rule_hashes"
         "py_getitem version ''files'' = Inr (JArr (pre @ entry # post))"
         "\<forall>x\<in>set pre. \<exists>k. py_getitem x ''key'' = Inr k \<and> k \<noteq> JStr rule_name"
         "py_getitem entry ''key'' = Inr (JStr rule_name)"
         "py_get rule_hashes rule_name JNull = Inr (JStr (file_name file))"
  shows "download_file w z file rule_name tarball dry_run =
            (fst (download_record_entry w file entry tarball dry_run),
             td @ [Log DEBUG (F ''Attempting to access {} record with DOI {}...''
                                [JStr (service z), JStr (doi z)]),
                   Http (record_query z), Http (records_search z)] @
             missed w z file rule_name tarball dry_run (rev listed_after) @
             snd (download_record_entry w file entry tarball dry_run))"
proof -
  let ?hit = "download_record_entry w file entry tarball dry_run"
  have hit: "download_file_from_record w version file rule_name tarball dry_run = ?hit"
    by (rule download_file_from_record_match [OF match])
  have decided: "\<forall>n. fst (download_file_from_record w version file rule_name tarball dry_run)
                  \<noteq> Inl (FileNotFoundOnZenodo n)"
    using no_miss_download_record_entry [of w "file" entry tarball dry_run]
    by (simp add: hit no_miss_def)
  from skip have skip': "\<forall>r\<in>set (rev listed_after). \<exists>n t. download_file_from_record w r file rule_name tarball dry_run
                                  = (Inl (FileNotFoundOnZenodo n), t)"
    by simp
  have search: "search_records w z file rule_name tarball dry_run (rev listed_after @ version # rev listed_before) =
          (map_sum id (\<lambda>u. True) (fst ?hit),
           missed w z file rule_name tarball dry_run (rev listed_after) @ snd ?hit)"
    using search_records_skip [OF skip', of z "version # rev listed_before"]
          search_records_decided [OF decided, of z "rev listed_before"]
    by (simp add: hit)
  have records: "download_file_records w z file rule_name tarball dry_run =
          (map_sum id (\<lambda>u. True) (fst ?hit),
           [Log DEBUG (F ''Attempting to access {} record with DOI {}...''
                                [JStr (service z), JStr (doi z)]),
                   Http (record_query z), Http (records_search z)] @
           missed w z file rule_name tarball dry_run (rev listed_after) @ snd ?hit)"
    using download_file_records_listing
            [OF listing, of "file" rule_name tarball dry_run]
    by (simp add: search)
  show ?thesis
    by (cases "fst ?hit") (simp_all add: download_file_after_draft [OF reach] records)
qed

lemma download_file_draft_match:
  assumes "truthy (token z)"
      and "status_code (http w (depositions_query z)) \<le> 204"
      and "body (http w (depositions_query z)) = Some (JArr (version # versions))"
      and "py_get version ''links'' (JObj []) = Inr vlinks"
      and "py_get vlinks ''latest_draft'' JNull = Inr draft_url"
      and "truthy draft_url"
      and "status_code (http w (authorized_get z draft_url)) \<le> 204"
      and "body (http w (authorized_get z draft_url)) = Some draft"
      and "py_getitem draft ''metadata'' = Inr metadata"
      and "load_rule_hashes w metadata = Inr rule_hashes"
      and "py_getitem draft ''links'' = Inr links"
      and "py_getitem links ''files'' = Inr files_url"
      and "parse_request w (http w (authorized_get z files_url)) = Inr (JArr (pre @ entry # post))"
      and "\<forall>x\<in>set pre. \<exists>f. py_getitem x ''filename'' = Inr f \<and> f \<noteq> JStr rule_name"
      and "py_getitem entry ''filename'' = Inr (JStr rule_name)"
      and "py_get rule_hashes rule_name JNull = Inr (JStr (file_name file))"
  shows "download_file w z file rule_name tarball dry_run =
           (fst (download_draft_entry w z file entry tarball dry_run),
            [Log DEBUG (F ''Attempting to access {} deposit with DOI {}...''
                          [JStr (service z), JStr (doi z)]),
             Http (depositions_query z),
             Http (authorized_get z draft_url),
             Http (authorized_get z files_url),
             Log DEBUG (F ''Searching for file `{}` with hash `{}`...''
                          [JStr rule_name, JStr (file_name file)])] @
            concat (map (passed_over (JStr (file_name file))) pre) @
            Log DEBUG (F ''Inspecting candidate file `{}` with hash `{}`...''
                         [JStr rule_name, JStr (file_name file)]) #
            snd (download_draft_entry w z file entry tarball dry_run))"
proof -
  have hit: "download_file_from_draft w z draft file rule_name tarball dry_run =
           (fst (download_draft_entry w z file entry tarball dry_run),
            [Http (authorized_get z files_url),
             Log DEBUG (F ''Searching for file `{}` with hash `{}`...''
                          [JStr rule_name, JStr (file_name file)])] @
            concat (map (passed_over (JStr (file_name file))) pre) @
            Log DEBUG (F ''Inspecting candidate file `{}` with hash `{}`...''
                         [JStr rule_name, JStr (file_name file)]) #
            snd (download_draft_entry w z file entry tarball dry_run))"
    using assms by (intro download_file_from_draft_match) auto
  have decided: "\<forall>n. fst (download_draft_entry w z file entry tarball dry_run)
                       \<noteq> Inl (FileNotFoundOnZenodo n)"
    using no_miss_download_draft_entry [of w z "file" entry tarball dry_run]
    by (simp add: no_miss_def)
  show ?thesis
    using download_file_draft_decided [OF assms(2-8) hit decided] by simp
qed

lemma download_file_stale_then_match:
  assumes draft: "truthy (token z)"
         "status_code (http w (depositions_query z)) \<le> 204"
         "body (http w (depositions_query z)) = Some (JArr (deposition # depositions))"
         "py_get deposition ''links'' (JObj []) = Inr vlinks"
         "py_get vlinks ''latest_draft'' JNull = Inr draft_url"
         "truthy draft_url"
         "status_code (http w (authorized_get z draft_url)) \<le> 204"
         "body (http w (authorized_get z draft_url)) = Some draft"
         "py_getitem draft ''metadata'' = Inr dmetadata"
         "load_rule_hashes w dmetadata = Inr draft_hashes"
         "py_getitem draft ''links'' = Inr links"
         "py_getitem links ''files'' = Inr files_url"
         "parse_request w (http w (authorized_get z files_url)) = Inr (JArr (dpre @ dentry # dpost))"
         "\<forall>x\<in>set dpre. \<exists>f. py_getitem x ''filename'' = Inr f \<and> f \<noteq> JStr rule_name"
         "py_getitem dentry ''filename'' = Inr (JStr rule_name)"
         "py_get draft_hashes rule_name JNull = Inr draft_hash"
         "draft_hash \<noteq> JStr (file_name file)"
      and records: "status_code (http w (record_query z)) \<le> 204"
         "status_code (http w (records_search z)) \<le> 204"
         "body (http w (records_search z)) = Some (JObj found)"
         "map_of found ''hits'' = Some (JObj hits)"
         "map_of hits ''hits'' = Some (JArr (listed_before @ version # listed_after))"
         "\<forall>r\<in>set listed_after. \<exists>n t. download_file_from_record w r file rule_name tarball dry_run
                                  = (Inl (FileNotFoundOnZenodo n), t)"
         "py_getitem version ''metadata'' = Inr metadata"
         "load_rule_hashes w metadata = Inr rule_hashes"
         "py_getitem version ''files'' = Inr (JArr (pre @ entry # post))"
         "\<forall>x\<in>set pre. \<exists>k. py_getitem x ''key'' = Inr k \<and> k \<noteq> JStr rule_name"
         "py_getitem entry ''key'' = Inr (JStr rule_name)"
         "py_get rule_hashes rule_name JNull = Inr (JStr (file_name file))"
  shows "download_file w z file rule_name tarball dry_run =
           (fst (download_record_entry w file entry tarball dry_run),
            [Log DEBUG (F ''Attempting to access {} deposit with DOI {}...''
                          [JStr (service z), JStr (doi z)]),
             Http (depositions_query z),
             Http (authorized_get z draft_url),
             Http (authorized_get z files_url),
             Log DEBUG (F ''Searching for file `{}` with hash `{}`...''
                          [JStr rule_name, JStr (file_name file)])] @
            concat (map (passed_over draft_hash) dpre) @
            [Log DEBUG (F ''Inspecting candidate file `{}` with hash `{}`...''
                          [JStr rule_name, draft_hash]),
             Log DEBUG (F ''File {} found, but it has the wrong hash. Skipping...''
                          [JStr rule_name]),
             Log DEBUG (F ''File {} not found in deposit with DOI {}.''
                          [JStr rule_name, JStr (doi z)]),
             Log DEBUG (F ''Attempting to access {} record with DOI {}...''
                          [JStr (service z), JStr (doi z)]),
             Http (record_query z), Http (records_search z)] @
            missed w z file rule_name tarball dry_run (rev listed_after) @
            snd (download_record_entry w file entry tarball dry_run))"
  using download_file_last_match [OF download_file_draft_stale [OF draft] records]
  by simp

text \<open>
  C1. Within one \<^verbatim>\<open>download_file\<close> the draft comes before any published record:
  every event of the draft half precedes every event of the record half, and the record
  half runs only when the draft half has found nothing. A draft that holds a match of
  name and hash is downloaded after the search for the versions, the request for the
  draft and the listing of its files, and no request for a published record is sent,
  whatever the records hold. When the draft half has found nothing, the published
  versions are walked from the end of the listing the search returns
  (\<^verbatim>\<open>records[::-1]\<close>): when no version listed after \<^verbatim>\<open>version\<close> holds the file and
  \<^verbatim>\<open>version\<close> holds a match of name and hash, the lookup downloads the entry of
  \<^verbatim>\<open>version\<close>, whatever the versions listed before it hold. The code reads neither
  the date nor the id of a version. On a listing with the oldest version first, that is
  by ascending id, the version downloaded is the newest one with a match: no listed
  version that holds the file has a greater id.
\<close>

theorem newest_match_is_downloaded:
  "snd (download_file w z file rule_name tarball dry_run) =
     snd (download_file_draft w z file rule_name tarball dry_run) @
     (if fst (download_file_draft w z file rule_name tarball dry_run) = Inr False
      then snd (download_file_records w z file rule_name tarball dry_run) else [])
   \<and> (truthy (token z)
      \<and> status_code (http w (depositions_query z)) \<le> 204
      \<and> body (http w (depositions_query z)) = Some (JArr (deposition # depositions))
      \<and> py_get deposition ''links'' (JObj []) = Inr vlinks
      \<and> py_get vlinks ''latest_draft'' JNull = Inr draft_url
      \<and> truthy draft_url
      \<and> status_code (http w (authorized_get z draft_url)) \<le> 204
      \<and> body (http w (authorized_get z draft_url)) = Some draft
      \<and> py_getitem draft ''metadata'' = Inr dmetadata
      \<and> load_rule_hashes w dmetadata = Inr draft_hashes
      \<and> py_getitem draft ''links'' = Inr links
      \<and> py_getitem links ''files'' = Inr files_url
      \<and> parse_request w (http w (authorized_get z files_url)) = Inr (JArr (dpre @ dentry # dpost))
      \<and> (\<forall>x\<in>set dpre. \<exists>f. py_getitem x ''filename'' = Inr f \<and> f \<noteq> JStr rule_name)
      \<and> py_getitem dentry ''filename'' = Inr (JStr rule_name)
      \<and> py_get draft_hashes rule_name JNull = Inr (JStr (file_name file))
      \<longrightarrow> download_file w z file rule_name tarball dry_run =
            (fst (download_draft_entry w z file dentry tarball dry_run),
             [Log DEBUG (F ''Attempting to access {} deposit with DOI {}...''
                           [JStr (service z), JStr (doi z)]),
              Http (depositions_query z),
              Http (authorized_get z draft_url),
              Http (authorized_get z files_url),
              Log DEBUG (F ''Searching for file `{}` with hash `{}`...''
                           [JStr rule_name, JStr (file_name file)])] @
             concat (map (passed_over (JStr (file_name file))) dpre) @
             Log DEBUG (F ''Inspecting candidate file `{}` with hash `{}`...''
                          [JStr rule_name, JStr (file_name file)]) #
             snd (download_draft_entry w z file dentry tarball dry_run)))
   \<and> (download_file_draft w z file rule_name tarball dry_run = (Inr False, td)
      \<and> status_code (http w (record_query z)) \<le> 204
      \<and> status_code (http w (records_search z)) \<le> 204
      \<and> body (http w (records_search z)) = Some (JObj found)
      \<and> map_of found ''hits'' = Some (JObj hits)
      \<and> map_of hits ''hits'' = Some (JArr (listed_before @ version # listed_after))
      \<and> (\<forall>r\<in>set listed_after. \<exists>n t. download_file_from_record w r file rule_name tarball dry_run
                                  = (Inl (FileNotFoundOnZenodo n), t))
      \<and> py_getitem version ''metadata'' = Inr metadata
      \<and> load_rule_hashes w metadata = Inr rule_hashes
      \<and> py_get rule_hashes rule_name JNull = Inr (JStr (file_name file))
      \<and> py_getitem version ''files'' = Inr (JArr (pre @ entry # post))
      \<and> (\<forall>x\<in>set pre. \<exists>k. py_getitem x ''key'' = Inr k \<and> k \<noteq> JStr rule_name)
      \<and> py_getitem entry ''key'' = Inr (JStr rule_name)
      \<longrightarrow> download_file w z file rule_name tarball dry_run =
            (fst (download_record_entry w file entry tarball dry_run),
             td @ [Log DEBUG (F ''Attempting to access {} record with DOI {}...''
                                [JStr (service z), JStr (doi z)]),
                   Http (record_query z), Http (records_search z)] @
             missed w z file rule_name tarball dry_run (rev listed_after) @
             snd (download_record_entry w file entry tarball dry_run)))
   \<and> ((\<forall>r\<in>set listed_after. \<exists>n t. download_file_from_record w r file rule_name tarball dry_run
                                  = (Inl (FileNotFoundOnZenodo n), t))
      \<and> sorted_wrt (<) (map record_id (listed_before @ version # listed_after))
      \<and> candidate \<in> set (listed_before @ version # listed_after)
      \<and> (\<forall>n. fst (download_file_from_record w candidate file rule_name tarball dry_run)
                \<noteq> Inl (FileNotFoundOnZenodo n))
      \<longrightarrow> record_id candidate \<le> record_id version)"
proof (intro conjI impI)
  show "snd (download_file w z file rule_name tarball dry_run) =
     snd (download_file_draft w z file rule_name tarball dry_run) @
     (if fst (download_file_draft w z file rule_name tarball dry_run) = Inr False
      then snd (download_file_records w z file rule_name tarball dry_run) else [])"
    by (rule download_file_draft_first)
next
  assume "truthy (token z)
      \<and> status_code (http w (depositions_query z)) \<le> 204
      \<and> body (http w (depositions_query z)) = Some (JArr (deposition # depositions))
      \<and> py_get deposition ''links'' (JObj []) = Inr vlinks
      \<and> py_get vlinks ''latest_draft'' JNull = Inr draft_url
      \<and> truthy draft_url
      \<and> status_code (http w (authorized_get z draft_url)) \<le> 204
      \<and> body (http w (authorized_get z draft_url)) = Some draft
      \<and> py_getitem draft ''metadata'' = Inr dmetadata
      \<and> load_rule_hashes w dmetadata = Inr draft_hashes
      \<and> py_getitem draft ''links'' = Inr links
      \<and> py_getitem links ''files'' = Inr files_url
      \<and> parse_request w (http w (authorized_get z files_url)) = Inr (JArr (dpre @ dentry # dpost))
      \<and> (\<forall>x\<in>set dpre. \<exists>f. py_getitem x ''filename'' = Inr f \<and> f \<noteq> JStr rule_name)
      \<and> py_getitem dentry ''filename'' = Inr (JStr rule_name)
      \<and> py_get draft_hashes rule_name JNull = Inr (JStr (file_name file))"
  then show "download_file w z file rule_name tarball dry_run =
            (fst (download_draft_entry w z file dentry tarball dry_run),
             [Log DEBUG (F ''Attempting to access {} deposit with DOI {}...''
                           [JStr (service z), JStr (doi z)]),
              Http (depositions_query z),
              Http (authorized_get z draft_url),
              Http (authorized_get z files_url),
              Log DEBUG (F ''Searching for file `{}` with hash `{}`...''
                           [JStr rule_name, JStr (file_name file)])] @
             concat (map (passed_over (JStr (file_name file))) dpre) @
             Log DEBUG (F ''Inspecting candidate file `{}` with hash `{}`...''
                          [JStr rule_name, JStr (file_name file)]) #
             snd (download_draft_entry w z file dentry tarball dry_run))"
    by (intro download_file_draft_match) auto
next
  assume "download_file_draft w z file rule_name tarball dry_run = (Inr False, td)
      \<and> status_code (http w (record_query z)) \<le> 204
      \<and> status_code (http w (records_search z)) \<le> 204
      \<and> body (http w (records_search z)) = Some (JObj found)
      \<and> map_of found ''hits'' = Some (JObj hits)
      \<and> map_of hits ''hits'' = Some (JArr (listed_before @ version # listed_after))
      \<and> (\<forall>r\<in>set listed_after. \<exists>n t. download_file_from_record w r file rule_name tarball dry_run
                                  = (Inl (FileNotFoundOnZenodo n), t))
      \<and> py_getitem version ''metadata'' = Inr metadata
      \<and> load_rule_hashes w metadata = Inr rule_hashes
      \<and> py_get rule_hashes rule_name JNull = Inr (JStr (file_name file))
      \<and> py_getitem version ''files'' = Inr (JArr (pre @ entry # post))
      \<and> (\<forall>x\<in>set pre. \<exists>k. py_getitem x ''key'' = Inr k \<and> k \<noteq> JStr rule_name)
      \<and> py_getitem entry ''key'' = Inr (JStr rule_name)"
  then show "download_file w z file rule_name tarball dry_run =
            (fst (download_record_entry w file entry tarball dry_run),
             td @ [Log DEBUG (F ''Attempting to access {} record with DOI {}...''
                                [JStr (service z), JStr (doi z)]),
                   Http (record_query z), Http (records_search z)] @
             missed w z file rule_name tarball dry_run (rev listed_after) @
             snd (download_record_entry w file entry tarball dry_run))"
    by (intro download_file_last_match) auto
next
  assume a: "(\<forall>r\<in>set listed_after. \<exists>n t. download_file_from_record w r file rule_name tarball dry_run
                                  = (Inl (FileNotFoundOnZenodo n), t))
      \<and> sorted_wrt (<) (map record_id (listed_before @ version # listed_after))
      \<and> candidate \<in> set (listed_before @ version # listed_after)
      \<and> (\<forall>n. fst (download_file_from_record w candidate file rule_name tarball dry_run)
                \<noteq> Inl (FileNotFoundOnZenodo n))"
  then have "candidate \<notin> set listed_after" by force
  with a show "record_id candidate \<le> record_id version"
    by (intro newest_of_sorted [of listed_before version listed_after candidate]) auto
qed

text \<open>
  C1, as the claim words it, has the newest matching version downloaded on every call.
  On a listing with the newest version first the walk from the end reaches the oldest
  version first: both versions hold a match, the one with the id 2 is listed before the
  one with the id 1, and the copy fetched is that of the version with the id 1.
\<close>

theorem newest_first_listing_downloads_oldest:
  "record_id (numbered_version 1 ''7f3a'' ''https://zenodo.org/v1/make_data'')
     < record_id (numbered_version 2 ''7f3a'' ''https://zenodo.org/v2/make_data'')
   \<and> download_file_from_record
        (sample_service ''0000''
           [numbered_version 2 ''7f3a'' ''https://zenodo.org/v2/make_data'',
            numbered_version 1 ''7f3a'' ''https://zenodo.org/v1/make_data''])
        (numbered_version 2 ''7f3a'' ''https://zenodo.org/v2/make_data'')
        sample_file ''make_data'' False False
       = (Inr (),
          [Log DEBUG (F ''File name and hash both match.'' []),
           Log DEBUG (F ''Downloading...'' []),
           Subprocess [F ''curl'' [], F ''{}'' [JStr ''https://zenodo.org/v2/make_data''],
                       F ''--output'' [], F ''{}'' [JStr ''/cache/7f3a'']]])
   \<and> download_file
        (sample_service ''0000''
           [numbered_version 2 ''7f3a'' ''https://zenodo.org/v2/make_data'',
            numbered_version 1 ''7f3a'' ''https://zenodo.org/v1/make_data''])
        sample_zenodo sample_file ''make_data'' False False
       = (Inr (),
          [Log DEBUG (F ''Attempting to access {} deposit with DOI {}...''
                        [JStr ''Zenodo Sandbox'', JStr ''10.5072/zenodo.1'']),
           Http (depositions_query sample_zenodo),
           Http draft_query,
           Http files_query,
           Log DEBUG (F ''Searching for file `{}` with hash `{}`...''
                        [JStr ''make_data'', JStr ''7f3a'']),
           Log DEBUG (F ''Inspecting candidate file `{}` with hash `{}`...''
                        [JStr ''other'', JStr ''0000'']),
           Log DEBUG (F ''Cache miss for file {}. Skipping...'' [JStr ''other'']),
           Log DEBUG (F ''Inspecting candidate file `{}` with hash `{}`...''
                        [JStr ''make_data'', JStr ''0000'']),
           Log DEBUG (F ''File {} found, but it has the wrong hash. Skipping...''
                        [JStr ''make_data'']),
           Log DEBUG (F ''File {} not found in deposit with DOI {}.''
                        [JStr ''make_data'', JStr ''10.5072/zenodo.1'']),
           Log DEBUG (F ''Attempting to access {} record with DOI {}...''
                        [JStr ''Zenodo Sandbox'', JStr ''10.5072/zenodo.1'']),
           Http (record_query sample_zenodo),
           Http (records_search sample_zenodo),
           Log DEBUG (F ''File name and hash both match.'' []),
           Log DEBUG (F ''Downloading...'' []),
           Subprocess [F ''curl'' [], F ''{}'' [JStr ''https://zenodo.org/v1/make_data''],
                       F ''--output'' [], F ''{}'' [JStr ''/cache/7f3a'']]])"
  using download_file_stale_then_match
          [where w = "sample_service ''0000'' [numbered_version 2 ''7f3a'' ''https://zenodo.org/v2/make_data'', numbered_version 1 ''7f3a'' ''https://zenodo.org/v1/make_data'']"
             and z = sample_zenodo and rule_name = "''make_data''"
             and tarball = False and dry_run = False
             and deposition = "JObj [(''id'', JInt 11), (''submitted'', JBool False),
                     (''links'', JObj [(''latest_draft'',
                                        JStr ''https://sandbox.zenodo.org/api/draft/1'')])]"
             and depositions = "[]"
             and vlinks = "JObj [(''latest_draft'', JStr ''https://sandbox.zenodo.org/api/draft/1'')]"
             and draft_url = "JStr ''https://sandbox.zenodo.org/api/draft/1''"
             and draft = "JObj (deposit_json (Some (JStr (ledger_text ''make_data'' ''0000''))) [])"
             and dmetadata = "JObj [(''title'', JStr ''Data''), (''notes'', JStr (ledger_text ''make_data'' ''0000''))]"
             and draft_hashes = "JObj [(''make_data'', JStr ''0000'')]"
             and links = "JObj [(''files'', JStr ''https://sandbox.zenodo.org/api/files/1''),
                     (''bucket'', JStr ''https://sandbox.zenodo.org/api/bucket/1''),
                     (''latest_draft'', JStr ''https://sandbox.zenodo.org/api/draft/1'')]"
             and files_url = "JStr ''https://sandbox.zenodo.org/api/files/1''"
             and dpre = "[JObj [(''filename'', JStr ''other'')]]"
             and dentry = draft_file
             and dpost = "[JObj [(''filename'', JStr ''later'')]]"
             and draft_hash = "JStr ''0000''"
             and found = "[(''hits'', JObj [(''hits'', JArr [numbered_version 2 ''7f3a'' ''https://zenodo.org/v2/make_data'', numbered_version 1 ''7f3a'' ''https://zenodo.org/v1/make_data''])])]"
             and hits = "[(''hits'', JArr [numbered_version 2 ''7f3a'' ''https://zenodo.org/v2/make_data'', numbered_version 1 ''7f3a'' ''https://zenodo.org/v1/make_data''])]"
             and listed_before = "[numbered_version 2 ''7f3a'' ''https://zenodo.org/v2/make_data'']"
             and version = "numbered_version 1 ''7f3a'' ''https://zenodo.org/v1/make_data''"
             and listed_after = "[]"
             and metadata = "JObj [(''title'', JStr ''Data''), (''notes'', JStr (ledger_text ''make_data'' ''7f3a''))]"
             and rule_hashes = "JObj [(''make_data'', JStr ''7f3a'')]"
             and pre = "[]"
             and entry = "JObj [(''key'', JStr ''make_data''),
                     (''links'', JObj [(''self'', JStr ''https://zenodo.org/v1/make_data'')])]"
             and post = "[]"
             and ?file = sample_file]
  by (simp add: sample_defs sample_service_def numbered_version_def draft_file_def record_id_def
        draft_listed_def draft_query_def files_query_def authorized_get_def hits_answer_def
        log_message_def r_json_def run_defs
        depositions_query_def record_query_def records_search_def
        load_rule_hashes_def download_record_entry_def download_file_from_record_def
        subprocess_def progress_bar_def passed_over_def missed_def)

theorem newest_match_is_downloaded_witness:
  "download_file
      (sample_service ''7f3a''
         [numbered_version 1 ''7f3a'' ''https://zenodo.org/v1/make_data'',
          numbered_version 2 ''7f3a'' ''https://zenodo.org/v2/make_data''])
      sample_zenodo sample_file ''make_data'' False False
     = (Inr (),
        [Log DEBUG (F ''Attempting to access {} deposit with DOI {}...''
                      [JStr ''Zenodo Sandbox'', JStr ''10.5072/zenodo.1'']),
         Http (depositions_query sample_zenodo),
         Http draft_query,
         Http files_query,
         Log DEBUG (F ''Searching for file `{}` with hash `{}`...''
                      [JStr ''make_data'', JStr ''7f3a'']),
         Log DEBUG (F ''Inspecting candidate file `{}` with hash `{}`...''
                      [JStr ''other'', JStr ''7f3a'']),
         Log DEBUG (F ''Cache miss for file {}. Skipping...'' [JStr ''other'']),
         Log DEBUG (F ''Inspecting candidate file `{}` with hash `{}`...''
                      [JStr ''make_data'', JStr ''7f3a'']),
         Log DEBUG (F ''File name and hash both match.'' []),
         Log DEBUG (F ''Downloading...'' []),
         Subprocess [F ''curl'' [], F ''-f'' [],
                     F ''{}?access_token={}''
                       [JStr ''https://sandbox.zenodo.org/api/files/1/make_data'', JStr ''secret''],
                     F ''--output'' [], F ''{}'' [JStr ''/cache/7f3a'']]])
   \<and> download_file_draft
        (sample_service ''0000''
           [numbered_version 1 ''7f3a'' ''https://zenodo.org/v1/make_data'',
            numbered_version 2 ''7f3a'' ''https://zenodo.org/v2/make_data''])
        sample_zenodo sample_file ''make_data'' False False
       = (Inr False,
          [Log DEBUG (F ''Attempting to access {} deposit with DOI {}...''
                        [JStr ''Zenodo Sandbox'', JStr ''10.5072/zenodo.1'']),
           Http (depositions_query sample_zenodo),
           Http draft_query,
           Http files_query,
           Log DEBUG (F ''Searching for file `{}` with hash `{}`...''
                        [JStr ''make_data'', JStr ''7f3a'']),
           Log DEBUG (F ''Inspecting candidate file `{}` with hash `{}`...''
                        [JStr ''other'', JStr ''0000'']),
           Log DEBUG (F ''Cache miss for file {}. Skipping...'' [JStr ''other'']),
           Log DEBUG (F ''Inspecting candidate file `{}` with hash `{}`...''
                        [JStr ''make_data'', JStr ''0000'']),
           Log DEBUG (F ''File {} found, but it has the wrong hash. Skipping...''
                        [JStr ''make_data'']),
           Log DEBUG (F ''File {} not found in deposit with DOI {}.''
                        [JStr ''make_data'', JStr ''10.5072/zenodo.1''])])
   \<and> sorted_wrt (<) (map record_id
        [numbered_version 1 ''7f3a'' ''https://zenodo.org/v1/make_data'',
         numbered_version 2 ''7f3a'' ''https://zenodo.org/v2/make_data''])
   \<and> record_id (numbered_version 1 ''7f3a'' ''https://zenodo.org/v1/make_data'')
       \<le> record_id (numbered_version 2 ''7f3a'' ''https://zenodo.org/v2/make_data'')
   \<and> download_file
        (sample_service ''0000''
           [numbered_version 1 ''7f3a'' ''https://zenodo.org/v1/make_data'',
            numbered_version 2 ''7f3a'' ''https://zenodo.org/v2/make_data''])
        sample_zenodo sample_file ''make_data'' False False
       = (Inr (),
          [Log DEBUG (F ''Attempting to access {} deposit with DOI {}...''
                        [JStr ''Zenodo Sandbox'', JStr ''10.5072/zenodo.1'']),
           Http (depositions_query sample_zenodo),
           Http draft_query,
           Http files_query,
           Log DEBUG (F ''Searching for file `{}` with hash `{}`...''
                        [JStr ''make_data'', JStr ''7f3a'']),
           Log DEBUG (F ''Inspecting candidate file `{}` with hash `{}`...''
                        [JStr ''other'', JStr ''0000'']),
           Log DEBUG (F ''Cache miss for file {}. Skipping...'' [JStr ''other'']),
           Log DEBUG (F ''Inspecting candidate file `{}` with hash `{}`...''
                        [JStr ''make_data'', JStr ''0000'']),
           Log DEBUG (F ''File {} found, but it has the wrong hash. Skipping...''
                        [JStr ''make_data'']),
           Log DEBUG (F ''File {} not found in deposit with DOI {}.''
                        [JStr ''make_data'', JStr ''10.5072/zenodo.1'']),
           Log DEBUG (F ''Attempting to access {} record with DOI {}...''
                        [JStr ''Zenodo Sandbox'', JStr ''10.5072/zenodo.1'']),
           Http (record_query sample_zenodo),
           Http (records_search sample_zenodo),
           Log DEBUG (F ''File name and hash both match.'' []),
           Log DEBUG (F ''Downloading...'' []),
           Subprocess [F ''curl'' [], F ''{}'' [JStr ''https://zenodo.org/v2/make_data''],
                       F ''--output'' [], F ''{}'' [JStr ''/cache/7f3a'']]])"
  using newest_match_is_downloaded
          [where
             w = "sample_service ''7f3a'' [numbered_version 1 ''7f3a'' ''https://zenodo.org/v1/make_data'', numbered_version 2 ''7f3a'' ''https://zenodo.org/v2/make_data'']"
             and z = sample_zenodo and ?file = sample_file and rule_name = "''make_data''"
             and tarball = False and dry_run = False
             and deposition = "JObj [(''id'', JInt 11), (''submitted'', JBool False),
                     (''links'', JObj [(''latest_draft'',
                                        JStr ''https://sandbox.zenodo.org/api/draft/1'')])]"
             and depositions = "[]"
             and vlinks = "JObj [(''latest_draft'', JStr ''https://sandbox.zenodo.org/api/draft/1'')]"
             and draft_url = "JStr ''https://sandbox.zenodo.org/api/draft/1''"
             and draft = "JObj (deposit_json (Some (JStr (ledger_text ''make_data'' ''7f3a''))) [])"
             and dmetadata = "JObj [(''title'', JStr ''Data''), (''notes'', JStr (ledger_text ''make_data'' ''7f3a''))]"
             and draft_hashes = "JObj [(''make_data'', JStr ''7f3a'')]"
             and links = "JObj [(''files'', JStr ''https://sandbox.zenodo.org/api/files/1''),
                     (''bucket'', JStr ''https://sandbox.zenodo.org/api/bucket/1''),
                     (''latest_draft'', JStr ''https://sandbox.zenodo.org/api/draft/1'')]"
             and files_url = "JStr ''https://sandbox.zenodo.org/api/files/1''"
             and dpre = "[JObj [(''filename'', JStr ''other'')]]"
             and dentry = draft_file
             and dpost = "[JObj [(''filename'', JStr ''later'')]]"]
        newest_match_is_downloaded
          [where
             w = "sample_service ''0000'' [numbered_version 1 ''7f3a'' ''https://zenodo.org/v1/make_data'', numbered_version 2 ''7f3a'' ''https://zenodo.org/v2/make_data'']"
             and z = sample_zenodo and ?file = sample_file and rule_name = "''make_data''"
             and tarball = False and dry_run = False
             and td = "[Log DEBUG (F ''Attempting to access {} deposit with DOI {}...''
                                    [JStr ''Zenodo Sandbox'', JStr ''10.5072/zenodo.1'']),
                       Http (depositions_query sample_zenodo),
                       Http draft_query,
                       Http files_query,
                       Log DEBUG (F ''Searching for file `{}` with hash `{}`...''
                                    [JStr ''make_data'', JStr ''7f3a'']),
                       Log DEBUG (F ''Inspecting candidate file `{}` with hash `{}`...''
                                    [JStr ''other'', JStr ''0000'']),
                       Log DEBUG (F ''Cache miss for file {}. Skipping...'' [JStr ''other'']),
                       Log DEBUG (F ''Inspecting candidate file `{}` with hash `{}`...''
                                    [JStr ''make_data'', JStr ''0000'']),
                       Log DEBUG (F ''File {} found, but it has the wrong hash. Skipping...''
                                    [JStr ''make_data'']),
                       Log DEBUG (F ''File {} not found in deposit with DOI {}.''
                                    [JStr ''make_data'', JStr ''10.5072/zenodo.1''])]"
             and found = "[(''hits'', JObj [(''hits'', JArr [numbered_version 1 ''7f3a'' ''https://zenodo.org/v1/make_data'', numbered_version 2 ''7f3a'' ''https://zenodo.org/v2/make_data''])])]"
             and hits = "[(''hits'', JArr [numbered_version 1 ''7f3a'' ''https://zenodo.org/v1/make_data'', numbered_version 2 ''7f3a'' ''https://zenodo.org/v2/make_data''])]"
             and listed_before = "[numbered_version 1 ''7f3a'' ''https://zenodo.org/v1/make_data'']"
             and version = "numbered_version 2 ''7f3a'' ''https://zenodo.org/v2/make_data''"
             and listed_after = "[]"
             and metadata = "JObj [(''title'', JStr ''Data''), (''notes'', JStr (ledger_text ''make_data'' ''7f3a''))]"
             and rule_hashes = "JObj [(''make_data'', JStr ''7f3a'')]"
             and pre = "[]"
             and entry = "JObj [(''key'', JStr ''make_data''),
                     (''links'', JObj [(''self'', JStr ''https://zenodo.org/v2/make_data'')])]"
             and post = "[]"
             and candidate = "numbered_version 1 ''7f3a'' ''https://zenodo.org/v1/make_data''"]
        download_file_draft_stale
          [where
             w = "sample_service ''0000'' [numbered_version 1 ''7f3a'' ''https://zenodo.org/v1/make_data'', numbered_version 2 ''7f3a'' ''https://zenodo.org/v2/make_data'']"
             and z = sample_zenodo and ?file = sample_file and rule_name = "''make_data''"
             and tarball = False and dry_run = False
             and version = "JObj [(''id'', JInt 11), (''submitted'', JBool False),
                     (''links'', JObj [(''latest_draft'',
                                        JStr ''https://sandbox.zenodo.org/api/draft/1'')])]"
             and versions = "[]"
             and vlinks = "JObj [(''latest_draft'', JStr ''https://sandbox.zenodo.org/api/draft/1'')]"
             and draft_url = "JStr ''https://sandbox.zenodo.org/api/draft/1''"
             and draft = "JObj (deposit_json (Some (JStr (ledger_text ''make_data'' ''0000''))) [])"
             and metadata = "JObj [(''title'', JStr ''Data''), (''notes'', JStr (ledger_text ''make_data'' ''0000''))]"
             and rule_hashes = "JObj [(''make_data'', JStr ''0000'')]"
             and links = "JObj [(''files'', JStr ''https://sandbox.zenodo.org/api/files/1''),
                     (''bucket'', JStr ''https://sandbox.zenodo.org/api/bucket/1''),
                     (''latest_draft'', JStr ''https://sandbox.zenodo.org/api/draft/1'')]"
             and files_url = "JStr ''https://sandbox.zenodo.org/api/files/1''"
             and pre = "[JObj [(''filename'', JStr ''other'')]]"
             and entry = draft_file
             and post = "[JObj [(''filename'', JStr ''later'')]]"
             and rule_hash = "JStr ''0000''"]
  by (simp add: sample_defs sample_service_def numbered_version_def draft_file_def record_id_def
        draft_listed_def draft_query_def files_query_def authorized_get_def hits_answer_def
        log_message_def r_json_def run_defs
        depositions_query_def record_query_def records_search_def
        load_rule_hashes_def download_record_entry_def download_file_from_record_def
        download_draft_entry_def subprocess_def progress_bar_def passed_over_def missed_def)



end
